theory Spec2Isabelle
  imports Main "HOL-Library.Log_Nat" "HOL-Library.Sublist"
begin

section \<open>JavaScript values used by the API client\<close>

subsection \<open>Numbers\<close>

text \<open>
  A JavaScript Number is an IEEE 754 binary64 value.  The model keeps the three special
  values and writes every finite value as the rational it denotes.  The two zeros are one
  value \<open>Fin 0\<close>: they are equal under \<open>===\<close>, both are falsy, and the only
  division of \<open>openai_api.js\<close> is by the literal \<open>1_000_000\<close>.

  Every arithmetic result is rounded to the nearest binary64 value, ties to even
  (53 significant bits, exponents from \<open>-1022\<close> to \<open>1023\<close>, subnormals with the
  quantum \<open>2^-1074\<close>, overflow to an infinity).  In \<open>double_of_rat\<close> the rounded
  magnitude is \<open>m * 2^(e - 52)\<close> with \<open>m \<le> 2^53\<close>; it reaches \<open>2^1024\<close>, and
  so becomes an infinity, exactly when \<open>e > 1023\<close>, or \<open>e = 1023\<close> and \<open>m = 2^53\<close>.
\<close>

datatype double = NaN | PInf | NInf | Fin rat

definition pow2 :: "int \<Rightarrow> rat" where
  "pow2 k = (if 0 \<le> k then 2 ^ nat k else 1 / 2 ^ nat (- k))"

text \<open>\<open>ilog2 q\<close> is the exponent \<open>e\<close> with \<open>2^e \<le> q < 2^(e+1)\<close>, for \<open>q > 0\<close>.\<close>

definition ilog2 :: "rat \<Rightarrow> int" where
  "ilog2 q =
     (let (a, b) = quotient_of q;
          k = bitlen a - bitlen b
      in if pow2 k \<le> q then k else k - 1)"

definition round_half_even :: "rat \<Rightarrow> int" where
  "round_half_even x =
     (let f = \<lfloor>x\<rfloor>; r = x - of_int f
      in if r < 1 / 2 then f
         else if 1 / 2 < r then f + 1
         else if even f then f else f + 1)"

definition double_of_rat :: "rat \<Rightarrow> double" where
  "double_of_rat q =
     (if q = 0 then Fin 0
      else
        let e = max (ilog2 \<bar>q\<bar>) (- 1022);
            u = pow2 (e - 52);
            m = round_half_even (\<bar>q\<bar> / u)
        in if 1023 < e \<or> (e = 1023 \<and> 2 ^ 53 \<le> m) then (if 0 < q then PInf else NInf)
           else Fin (sgn q * (of_int m * u)))"

text \<open>The operators \<open>*\<close>, \<open>+\<close> and \<open>/\<close> on Numbers.\<close>

fun js_mul :: "double \<Rightarrow> double \<Rightarrow> double" where
  "js_mul NaN _ = NaN"
| "js_mul _ NaN = NaN"
| "js_mul (Fin a) (Fin b) = double_of_rat (a * b)"
| "js_mul (Fin a) PInf = (if a = 0 then NaN else if 0 < a then PInf else NInf)"
| "js_mul (Fin a) NInf = (if a = 0 then NaN else if 0 < a then NInf else PInf)"
| "js_mul PInf (Fin b) = (if b = 0 then NaN else if 0 < b then PInf else NInf)"
| "js_mul NInf (Fin b) = (if b = 0 then NaN else if 0 < b then NInf else PInf)"
| "js_mul PInf PInf = PInf"
| "js_mul PInf NInf = NInf"
| "js_mul NInf PInf = NInf"
| "js_mul NInf NInf = PInf"

fun js_add :: "double \<Rightarrow> double \<Rightarrow> double" where
  "js_add NaN _ = NaN"
| "js_add _ NaN = NaN"
| "js_add (Fin a) (Fin b) = double_of_rat (a + b)"
| "js_add PInf NInf = NaN"
| "js_add NInf PInf = NaN"
| "js_add PInf _ = PInf"
| "js_add NInf _ = NInf"
| "js_add _ PInf = PInf"
| "js_add _ NInf = NInf"

text \<open>
  Division by a zero takes the zero as \<open>+0\<close>; the program divides by \<open>1_000_000\<close> only.
\<close>

fun js_div :: "double \<Rightarrow> double \<Rightarrow> double" where
  "js_div NaN _ = NaN"
| "js_div _ NaN = NaN"
| "js_div (Fin a) (Fin b) =
     (if b = 0 then (if a = 0 then NaN else if 0 < a then PInf else NInf)
      else double_of_rat (a / b))"
| "js_div (Fin a) PInf = Fin 0"
| "js_div (Fin a) NInf = Fin 0"
| "js_div PInf (Fin b) = (if 0 \<le> b then PInf else NInf)"
| "js_div NInf (Fin b) = (if 0 \<le> b then NInf else PInf)"
| "js_div PInf PInf = NaN"
| "js_div PInf NInf = NaN"
| "js_div NInf PInf = NaN"
| "js_div NInf NInf = NaN"

text \<open>\<open>a === b\<close> on Numbers: \<open>NaN\<close> is equal to nothing, itself included.\<close>

definition js_eq :: "double \<Rightarrow> double \<Rightarrow> bool" where
  "js_eq a b = (a \<noteq> NaN \<and> b \<noteq> NaN \<and> a = b)"

subsection \<open>Strings\<close>

text \<open>
  A JavaScript string is a sequence of UTF-16 code units.  The model covers the strings
  whose code units are all below 256 (ASCII and Latin-1) and writes each code unit as one
  \<open>char\<close>.  In that range \<open>toLowerCase\<close> moves \<open>A\<close>--\<open>Z\<close> and the accented capitals
  \<open>U+00C0\<close>--\<open>U+00DE\<close> (without the multiplication sign \<open>U+00D7\<close>) up by 32, and
  \<open>trim\<close> strips tab, line feed, vertical tab, form feed, carriage return, space and the
  no-break space \<open>U+00A0\<close>.
\<close>

definition lower_unit :: "char \<Rightarrow> char" where
  "lower_unit c =
     (let n = of_char c :: int
      in if (65 \<le> n \<and> n \<le> 90) \<or> (192 \<le> n \<and> n \<le> 214) \<or> (216 \<le> n \<and> n \<le> 222)
         then char_of (n + 32) else c)"

definition toLowerCase :: "string \<Rightarrow> string" where
  "toLowerCase s = map lower_unit s"

text \<open>\<open>s.includes(t)\<close>: \<open>t\<close> occurs in \<open>s\<close> as a contiguous run.\<close>

fun includes_str :: "string \<Rightarrow> string \<Rightarrow> bool" where
  "includes_str [] t = (t = [])"
| "includes_str (c # cs) t = (prefix t (c # cs) \<or> includes_str cs t)"

definition isWhiteSpace :: "char \<Rightarrow> bool" where
  "isWhiteSpace c = ((of_char c :: int) \<in> {9, 10, 11, 12, 13, 32, 160})"

definition trim :: "string \<Rightarrow> string" where
  "trim s = rev (dropWhile isWhiteSpace (rev (dropWhile isWhiteSpace s)))"

subsection \<open>Values and objects\<close>

text \<open>
  The fields this program reads from the usage record and from a catalog entry are JSON
  numbers or \<open>null\<close>, or they are absent, which reads as \<open>undefined\<close>.
\<close>

datatype jsval = Undefined | Null | Num double

fun truthy :: "jsval \<Rightarrow> bool" where
  "truthy Undefined = False"
| "truthy Null = False"
| "truthy (Num d) = (d \<noteq> NaN \<and> d \<noteq> Fin 0)"

fun ToNumber :: "jsval \<Rightarrow> double" where
  "ToNumber Undefined = NaN"
| "ToNumber Null = Fin 0"
| "ToNumber (Num d) = d"

text \<open>\<open>v || d\<close> with a Number on the right: the result is a Number, since a truthy \<open>v\<close> is one.\<close>

definition js_or :: "jsval \<Rightarrow> double \<Rightarrow> double" where
  "js_or v d = (if truthy v then ToNumber v else d)"

text \<open>An object is the finite map of its own properties; \<open>obj.name\<close> for a name that
  \<open>Object.prototype\<close> does not define reads the own property or \<open>undefined\<close>.\<close>

type_synonym jsobj = "string \<rightharpoonup> jsval"

definition get :: "jsobj \<Rightarrow> string \<Rightarrow> jsval" where
  "get obj name = (case obj name of None \<Rightarrow> Undefined | Some v \<Rightarrow> v)"

text \<open>
  \<open>obj[key]\<close> with a computed key on a plain object (an object literal, or an object made
  by \<open>JSON.parse\<close>) finds an own property first and a member of \<open>Object.prototype\<close>
  otherwise.  An inherited member is a function, or for \<open>__proto__\<close> the prototype object
  itself: it is truthy and has none of the fields this program reads.
\<close>

datatype 'a property = Own 'a | Inherited | Absent

definition Object_prototype_names :: "string list" where
  "Object_prototype_names =
     [''constructor'', ''__defineGetter__'', ''__defineSetter__'', ''hasOwnProperty'',
      ''__lookupGetter__'', ''__lookupSetter__'', ''isPrototypeOf'', ''propertyIsEnumerable'',
      ''toString'', ''valueOf'', ''__proto__'', ''toLocaleString'']"

definition js_index :: "(string \<rightharpoonup> 'a) \<Rightarrow> string \<Rightarrow> 'a property" where
  "js_index obj key =
     (case obj key of
        Some v \<Rightarrow> Own v
      | None \<Rightarrow> if key \<in> set Object_prototype_names then Inherited else Absent)"

section \<open>calculateCost\<close>

text \<open>\<open>this.modelPrices\<close>: \<open>null\<close>, or the parsed pricing document, an object of objects.\<close>

type_synonym catalog = "string \<rightharpoonup> jsobj"

record pricing =
  "input" :: double
  "output" :: double

text \<open>The object literal \<open>fallbackPricing\<close>, its entries in declaration order, which is the
  order of \<open>Object.entries\<close>.\<close>

definition fallbackPricing :: "(string \<times> pricing) list" where
  "fallbackPricing =
     [(''gpt-4o'', \<lparr>input = Fin (5 / 2), output = Fin 10\<rparr>),
      (''gpt-4o-mini'', \<lparr>input = double_of_rat (15 / 100), output = double_of_rat (60 / 100)\<rparr>),
      (''gpt-4-turbo'', \<lparr>input = Fin 10, output = Fin 30\<rparr>),
      (''gpt-4'', \<lparr>input = Fin 30, output = Fin 60\<rparr>),
      (''default'', \<lparr>input = Fin 5, output = Fin 15\<rparr>)]"

text \<open>Lines 191--198: the prices read from the catalog, both \<open>null\<close> at the start.\<close>

definition catalogPrices :: "catalog option \<Rightarrow> string \<Rightarrow> jsval \<times> jsval" where
  "catalogPrices modelPrices model =
     (case modelPrices of
        None \<Rightarrow> (Null, Null)
      | Some prices \<Rightarrow>
          (case js_index prices model of
             Absent \<Rightarrow> (Null, Null)
           | Own modelData \<Rightarrow>
               (get modelData ''input_cost_per_token'', get modelData ''output_cost_per_token'')
           | Inherited \<Rightarrow> (Undefined, Undefined)))"

text \<open>Lines 225--230: the loop over \<open>Object.entries(fallbackPricing)\<close>, left at the first
  key that the lowercased model id includes.\<close>

fun scanEntries :: "string \<Rightarrow> (string \<times> pricing) list \<Rightarrow> pricing option" where
  "scanEntries modelLower [] = None"
| "scanEntries modelLower ((key, value) # rest) =
     (if includes_str modelLower (toLowerCase key) then Some value
      else scanEntries modelLower rest)"

text \<open>Lines 220--236: \<open>modelPricing\<close> after the exact lookup, the scan and the default.\<close>

definition fallbackModelPricing :: "string \<Rightarrow> pricing property" where
  "fallbackModelPricing model =
     (let modelPricing = js_index (map_of fallbackPricing) model;
          modelPricing =
            (if modelPricing = Absent
             then (case scanEntries (toLowerCase model) fallbackPricing of
                     Some value \<Rightarrow> Own value
                   | None \<Rightarrow> Absent)
             else modelPricing);
          modelPricing =
            (if modelPricing = Absent then js_index (map_of fallbackPricing) ''default''
             else modelPricing)
      in modelPricing)"

text \<open>\<open>modelPricing.input\<close> and \<open>modelPricing.output\<close>.  Reading a field of \<open>undefined\<close>
  would be a TypeError; \<open>fallbackModelPricing\<close> never is \<open>Absent\<close> (lemma
  \<open>fallbackModelPricing_not_Absent\<close>).\<close>

fun pricingField :: "(pricing \<Rightarrow> double) \<Rightarrow> pricing property \<Rightarrow> jsval" where
  "pricingField f (Own p) = Num (f p)"
| "pricingField f Inherited = Undefined"
| "pricingField f Absent = Undefined"

text \<open>Lines 239--240: from per-million to per-token.\<close>

definition fallbackPerToken :: "string \<Rightarrow> jsval \<times> jsval" where
  "fallbackPerToken model =
     (let modelPricing = fallbackModelPricing model
      in (Num (js_div (ToNumber (pricingField input modelPricing)) (Fin 1000000)),
          Num (js_div (ToNumber (pricingField output modelPricing)) (Fin 1000000))))"

text \<open>Lines 191--241: the per-token prices that the costs are computed with.\<close>

definition resolvePrices :: "catalog option \<Rightarrow> string \<Rightarrow> jsval \<times> jsval" where
  "resolvePrices modelPrices model =
     (let (inputCostPerToken, outputCostPerToken) = catalogPrices modelPrices model
      in if inputCostPerToken = Null \<or> outputCostPerToken = Null
         then fallbackPerToken model
         else (inputCostPerToken, outputCostPerToken))"

record CostBreakdown =
  inputCost :: double
  outputCost :: double
  totalCost :: double
  promptTokens :: double
  completionTokens :: double
  totalTokens :: double

definition calculateCost :: "catalog option \<Rightarrow> string \<Rightarrow> jsobj \<Rightarrow> CostBreakdown" where
  "calculateCost modelPrices model usage =
     (let promptTokens = js_or (get usage ''prompt_tokens'') (Fin 0);
          completionTokens = js_or (get usage ''completion_tokens'') (Fin 0);
          (inputCostPerToken, outputCostPerToken) = resolvePrices modelPrices model;
          inputCost = js_mul promptTokens (ToNumber inputCostPerToken);
          outputCost = js_mul completionTokens (ToNumber outputCostPerToken);
          totalCost = js_add inputCost outputCost
      in \<lparr>inputCost = inputCost,
          outputCost = outputCost,
          totalCost = totalCost,
          promptTokens = promptTokens,
          completionTokens = completionTokens,
          totalTokens = js_or (get usage ''total_tokens'') (js_add promptTokens completionTokens)\<rparr>)"

section \<open>callOpenAIAPI: from the response body to the result\<close>

subsection \<open>The brace span\<close>

text \<open>
  \<open>content.match(/\{[\s\S]*\}/)\<close>.  The pattern is tried at each position from the left.
  At a position it needs \<open>{\<close>; then \<open>[\s\S]*\<close> takes every code unit that follows and gives
  them back one at a time until \<open>}\<close> matches, so \<open>greedyClose\<close> is the longest run
  that ends in \<open>}\<close>.
\<close>

fun greedyClose :: "string \<Rightarrow> string option" where
  "greedyClose [] = None"
| "greedyClose (c # cs) =
     (case greedyClose cs of
        Some m \<Rightarrow> Some (c # m)
      | None \<Rightarrow> if c = CHR ''}'' then Some [c] else None)"

definition matchHere :: "string \<Rightarrow> string option" where
  "matchHere s =
     (case s of
        [] \<Rightarrow> None
      | c # cs \<Rightarrow> if c = CHR ''{'' then map_option ((#) c) (greedyClose cs) else None)"

fun jsonMatch :: "string \<Rightarrow> string option" where
  "jsonMatch [] = None"
| "jsonMatch (c # cs) =
     (case matchHere (c # cs) of
        Some m \<Rightarrow> Some m
      | None \<Rightarrow> jsonMatch cs)"

text \<open>
  The span in the words of the specification: the text from its first \<open>{\<close> on, cut after
  its last \<open>}\<close>; there is none when nothing is left.
\<close>

definition braceSpan :: "string \<Rightarrow> string option" where
  "braceSpan rawText =
     (let fromFirstOpen = dropWhile (\<lambda>c. c \<noteq> CHR ''{'') rawText;
          toLastClose = rev (dropWhile (\<lambda>c. c \<noteq> CHR ''}'') (rev fromFirstOpen))
      in if toLastClose = [] then None else Some toLastClose)"

subsection \<open>Normalization\<close>

text \<open>
  \<open>JSON.parse\<close> belongs to the platform and is a parameter of the model: \<open>None\<close> is its
  SyntaxError.  It is only applied to a text that starts with \<open>{\<close>, where its result is an
  object, given by its own properties in order.
\<close>

datatype json =
  JNull | JBool bool | JNumber double | JString string
| JArray "json list" | JObject "(string \<times> json) list"

type_synonym document = "(string \<times> json) list"

text \<open>Lines 146--158.  The \<open>try\<close> block either yields a result or throws inside
  \<open>JSON.parse\<close>; the \<open>catch\<close> turns the throw into the text result.\<close>

datatype SyntaxError = SyntaxError

definition tryParse :: "(string \<Rightarrow> document option) \<Rightarrow> string \<Rightarrow> SyntaxError + document" where
  "tryParse JSON_parse content =
     (case jsonMatch content of
        Some m \<Rightarrow> (case JSON_parse m of None \<Rightarrow> Inl SyntaxError | Some doc \<Rightarrow> Inr doc)
      | None \<Rightarrow> Inr [(''textResponse'', JString content)])"

definition normalizeResponse :: "(string \<Rightarrow> document option) \<Rightarrow> string \<Rightarrow> document" where
  "normalizeResponse JSON_parse content =
     (case tryParse JSON_parse content of
        Inr result \<Rightarrow> result
      | Inl parseError \<Rightarrow> [(''textResponse'', JString content)])"

text \<open>The two shapes of a result that the specification names.\<close>

definition TextFallback :: "string \<Rightarrow> document" where
  "TextFallback rawText = [(''textResponse'', JString rawText)]"

definition groups :: "document \<Rightarrow> json list option" where
  "groups doc = (case map_of doc ''groups'' of Some (JArray gs) \<Rightarrow> Some gs | _ \<Rightarrow> None)"

fun wordsOf :: "json \<Rightarrow> json list" where
  "wordsOf (JObject g) = (case map_of g ''words'' of Some (JArray ws) \<Rightarrow> ws | _ \<Rightarrow> [])"
| "wordsOf _ = []"

subsection \<open>The executor\<close>

text \<open>
  The model starts at line 131, with the body of a successful response: \<open>content\<close> is
  \<open>data.choices[0].message.content\<close> (\<open>None\<close> for \<open>null\<close>), \<open>finish_reason\<close> is
  \<open>data.choices[0].finish_reason\<close>, \<open>usage\<close> is \<open>data.usage\<close> (\<open>None\<close> when the
  response has none).  The elapsed time is measured by the clock and is a parameter.
  A thrown \<open>new Error(message)\<close> is the result \<open>Inl (Error message)\<close>.
\<close>

datatype error = Error string

definition TruncatedResponse :: error where
  "TruncatedResponse = Error ''Model ran out of tokens before completing the response.''"

definition EmptyResponse :: "string \<Rightarrow> error" where
  "EmptyResponse finishReason =
     Error (''Received empty response from API. Finish reason: '' @ finishReason)"

record completion =
  content :: "string option"
  finish_reason :: string
  usage :: "jsobj option"

text \<open>\<open>result.cost\<close>: the breakdown with the two timing fields added in lines 168--169.\<close>

record timedCost =
  breakdown :: CostBreakdown
  costElapsedMs :: double
  elapsedSeconds :: double

text \<open>The result object: the properties that normalization gave it, and the fields assigned
  in lines 165--175, which hide parsed properties of the same names.\<close>

record solution =
  parsed :: document
  resultUsage :: "jsobj option"
  cost :: "timedCost option"
  model :: string
  finishReason :: string
  elapsedMs :: double

definition callOpenAIAPI ::
  "(string \<Rightarrow> document option) \<Rightarrow> catalog option \<Rightarrow> string \<Rightarrow> double \<Rightarrow> completion
     \<Rightarrow> error + solution" where
  "callOpenAIAPI JSON_parse modelPrices modelId elapsed data =
     (case content data of
        None \<Rightarrow>
          if finish_reason data = ''length'' then Inl TruncatedResponse
          else Inl (EmptyResponse (finish_reason data))
      | Some text \<Rightarrow>
          if text = [] \<or> trim text = [] then
            (if finish_reason data = ''length'' then Inl TruncatedResponse
             else Inl (EmptyResponse (finish_reason data)))
          else
            Inr \<lparr>parsed = normalizeResponse JSON_parse text,
                 resultUsage = usage data,
                 cost = (case usage data of
                           None \<Rightarrow> None
                         | Some u \<Rightarrow>
                             Some \<lparr>breakdown = calculateCost modelPrices modelId u,
                                   costElapsedMs = elapsed,
                                   elapsedSeconds = js_div elapsed (Fin 1000)\<rparr>),
                 model = modelId,
                 finishReason = finish_reason data,
                 elapsedMs = elapsed\<rparr>)"

section \<open>Notions of the specification and example data\<close>

text \<open>Line 201: the fallback table is consulted when one of the two prices is \<open>null\<close>
  after the catalog lookup.\<close>

definition usesFallback :: "catalog option \<Rightarrow> string \<Rightarrow> bool" where
  "usesFallback modelPrices modelId =
     (fst (catalogPrices modelPrices modelId) = Null \<or> snd (catalogPrices modelPrices modelId) = Null)"

text \<open>The first key of the table, in declaration order, that is a case-insensitive
  substring of the model id.\<close>

definition firstKeyIncluded :: "string \<Rightarrow> (string \<times> pricing) option" where
  "firstKeyIncluded modelId =
     find (\<lambda>(key, value). includes_str (toLowerCase modelId) (toLowerCase key)) fallbackPricing"

text \<open>A token count of a usage record as the specification has it: absent or \<open>null\<close>, or a
  finite Number that is not negative.  A price: a finite Number that is not negative.\<close>

fun nonNegativeCount :: "jsval \<Rightarrow> bool" where
  "nonNegativeCount (Num (Fin p)) = (0 \<le> p)"
| "nonNegativeCount (Num d) = False"
| "nonNegativeCount v = True"

fun nonNegativePrice :: "jsval \<Rightarrow> bool" where
  "nonNegativePrice (Num (Fin q)) = (0 \<le> q)"
| "nonNegativePrice v = False"

text \<open>A completion with one grouping object in prose: the text of the object, the document
  it denotes, and a stand-in for \<open>JSON.parse\<close> that reads this one text and rejects every
  other one.\<close>

definition solutionText :: string where
  "solutionText =
     ''{\"groups\":[{\"theme\":\"Fruits\",\"words\":[\"APPLE\",\"PEAR\",\"PLUM\",\"FIG\"]},'' @
     ''{\"theme\":\"Colors\",\"words\":[\"RED\",\"BLUE\",\"GREEN\",\"PINK\"]},'' @
     ''{\"theme\":\"Metals\",\"words\":[\"IRON\",\"GOLD\",\"ZINC\",\"TIN\"]},'' @
     ''{\"theme\":\"Birds\",\"words\":[\"CROW\",\"DOVE\",\"HAWK\",\"WREN\"]}]}''"

definition solutionGroups :: "json list" where
  "solutionGroups =
     [JObject [(''theme'', JString ''Fruits''),
               (''words'', JArray [JString ''APPLE'', JString ''PEAR'', JString ''PLUM'', JString ''FIG''])],
      JObject [(''theme'', JString ''Colors''),
               (''words'', JArray [JString ''RED'', JString ''BLUE'', JString ''GREEN'', JString ''PINK''])],
      JObject [(''theme'', JString ''Metals''),
               (''words'', JArray [JString ''IRON'', JString ''GOLD'', JString ''ZINC'', JString ''TIN''])],
      JObject [(''theme'', JString ''Birds''),
               (''words'', JArray [JString ''CROW'', JString ''DOVE'', JString ''HAWK'', JString ''WREN''])]]"

definition solutionDocument :: document where
  "solutionDocument = [(''groups'', JArray solutionGroups)]"

definition parseSolutionOnly :: "string \<Rightarrow> document option" where
  "parseSolutionOnly m = (if m = solutionText then Some solutionDocument else None)"

section \<open>Properties\<close>

subsection \<open>Rounding to binary64\<close>

text \<open>
  \<open>double_of_rat\<close> rounds to nearest: a finite result is \<open>m * 2^(e - 52)\<close> with an exponent
  \<open>e\<close> from \<open>-1022\<close> to \<open>1023\<close> and a significand \<open>m\<close> of at most 53 bits (exactly 53 bits
  for a magnitude in the normal range), and it lies within half of the quantum
  \<open>2^(e - 52)\<close> of the rational.  The tie goes to the even significand by
  \<open>round_half_even\<close>.
\<close>

lemma pow2_powi: "pow2 k = 2 powi k"
  by (simp add: pow2_def power_int_def power_one_over [symmetric] inverse_eq_divide)

lemma pow2_pos: "0 < pow2 k"
  by (simp add: pow2_powi)

lemma pow2_add: "pow2 (j + k) = pow2 j * pow2 k"
  by (simp add: pow2_powi power_int_add)

lemma pow2_nat: "0 \<le> k \<Longrightarrow> pow2 k = 2 ^ nat k"
  by (simp add: pow2_def)

lemma pow2_mono: "j \<le> k \<Longrightarrow> pow2 j \<le> pow2 k"
  by (simp add: pow2_powi power_int_increasing)

lemma round_half_even_nearest: "\<bar>of_int (round_half_even x) - x\<bar> \<le> 1 / 2"
proof -
  have "of_int \<lfloor>x\<rfloor> \<le> x" "x < of_int \<lfloor>x\<rfloor> + 1" by linarith+
  then show ?thesis
    by (auto simp: round_half_even_def Let_def)
qed

lemma bitlen_rat_bounds:
  assumes "0 < (a::int)"
  shows "pow2 (bitlen a - 1) \<le> of_int a" "(of_int a :: rat) < pow2 (bitlen a)"
proof -
  have pa: "1 \<le> bitlen a" using assms by (simp add: bitlen_alt_def)
  have la: "2 ^ nat (bitlen a - 1) \<le> a" "a < 2 ^ nat (bitlen a)"
    using bitlen_bounds [OF assms] by auto
  from la(1) have "(of_int (2 ^ nat (bitlen a - 1)) :: rat) \<le> of_int a"
    by (simp only: of_int_le_iff)
  then show "pow2 (bitlen a - 1) \<le> of_int a"
    using pa by (simp add: pow2_nat)
  from la(2) have "(of_int a :: rat) < of_int (2 ^ nat (bitlen a))"
    by (simp only: of_int_less_iff)
  then show "(of_int a :: rat) < pow2 (bitlen a)"
    using pa by (simp add: pow2_nat)
qed

lemma ilog2_bounds:
  assumes "0 < q"
  shows "pow2 (ilog2 q) \<le> q \<and> q < pow2 (ilog2 q + 1)"
proof -
  obtain a b where ab: "quotient_of q = (a, b)" by (cases "quotient_of q")
  then have b: "0 < b" by (rule quotient_of_denom_pos)
  from ab have q: "q = of_int a / of_int b" by (rule quotient_of_div)
  with assms b have a: "0 < a" by (simp add: zero_less_divide_iff)
  define k where "k = bitlen a - bitlen b"
  note ra = bitlen_rat_bounds [OF a] and rb = bitlen_rat_bounds [OF b]
  have b': "0 < (of_int b :: rat)" using b by simp
  have "pow2 (k - 1) * of_int b \<le> pow2 (k - 1) * pow2 (bitlen b)"
    using rb(2) pow2_pos [of "k - 1"] by (simp add: less_imp_le)
  also have "\<dots> = pow2 (bitlen a - 1)"
    by (simp add: pow2_add [symmetric] k_def)
  also have "\<dots> \<le> of_int a" by (rule ra(1))
  finally have lo: "pow2 (k - 1) \<le> q"
    using b' by (simp add: q pos_le_divide_eq)
  have "(of_int a :: rat) < pow2 (bitlen a)" by (rule ra(2))
  also have "\<dots> = pow2 (k + 1) * pow2 (bitlen b - 1)"
    by (simp add: pow2_add [symmetric] k_def)
  also have "\<dots> \<le> pow2 (k + 1) * of_int b"
    using rb(1) pow2_pos [of "k + 1"] by simp
  finally have hi: "q < pow2 (k + 1)"
    using b' by (simp add: q pos_divide_less_eq)
  have k1: "pow2 (k - 1 + 1) = pow2 k" by simp
  show ?thesis
    using lo hi ab k1 by (auto simp: ilog2_def k_def [symmetric] Let_def not_le)
qed


lemma round_half_even_upper: "x < of_int n \<Longrightarrow> round_half_even x \<le> n"
proof -
  assume "x < of_int n"
  then have "\<lfloor>x\<rfloor> < n" by (simp add: floor_less_iff)
  then show ?thesis
    by (auto simp: round_half_even_def Let_def)
qed

lemma round_half_even_lower: "of_int n \<le> x \<Longrightarrow> n \<le> round_half_even x"
proof -
  assume "of_int n \<le> x"
  then have "n \<le> \<lfloor>x\<rfloor>" by (simp add: le_floor_iff)
  then show ?thesis
    by (auto simp: round_half_even_def Let_def)
qed

lemma round_half_even_nonneg: "0 \<le> x \<Longrightarrow> 0 \<le> round_half_even x"
  by (auto simp: round_half_even_def Let_def)

lemma pow2_half: "pow2 (e - 52) = 2 * pow2 (e - 53)"
proof -
  have "pow2 (e - 52) = pow2 (1 + (e - 53))" by simp
  also have "\<dots> = pow2 1 * pow2 (e - 53)" by (rule pow2_add)
  finally show ?thesis by (simp add: pow2_def)
qed

lemma double_of_rat_nearest:
  assumes "double_of_rat q = Fin r"
  shows "\<exists>m e. - 1022 \<le> e \<and> e \<le> 1023 \<and> \<bar>m\<bar> \<le> 2 ^ 53 \<and> (e = 1023 \<longrightarrow> \<bar>m\<bar> < 2 ^ 53)
           \<and> (pow2 (- 1022) \<le> \<bar>q\<bar> \<longrightarrow> 2 ^ 52 \<le> \<bar>m\<bar>)
           \<and> r = of_int m * pow2 (e - 52) \<and> \<bar>r - q\<bar> \<le> pow2 (e - 53)"
proof (cases "q = 0")
  case True
  with assms have "r = 0" by (simp add: double_of_rat_def)
  moreover have "\<not> pow2 (- 1022) \<le> 0"
    using pow2_pos [of "- 1022"] by (simp only: not_le)
  ultimately show ?thesis
    using True
    by (intro exI [of _ 0] exI [of _ "0::int"]) (simp add: less_imp_le pow2_pos)
next
  case False
  define e where "e = max (ilog2 \<bar>q\<bar>) (- 1022)"
  define u where "u = pow2 (e - 52)"
  define m where "m = round_half_even (\<bar>q\<bar> / u)"
  have u: "0 < u" by (simp add: u_def pow2_pos)
  from assms False have fin: "\<not> (1023 < e \<or> (e = 1023 \<and> 2 ^ 53 \<le> m))"
    and r: "r = sgn q * (of_int m * u)"
    by (auto simp: double_of_rat_def Let_def e_def [symmetric] u_def [symmetric] m_def [symmetric]
        split: if_splits)
  have qpos: "0 < \<bar>q\<bar>" using False by simp
  have "\<bar>q\<bar> < pow2 (ilog2 \<bar>q\<bar> + 1)" using ilog2_bounds [OF qpos] by simp
  also have "\<dots> \<le> pow2 (e + 1)" by (rule pow2_mono) (simp add: e_def)
  also have "\<dots> = pow2 53 * u"
  proof -
    have "e + 1 = 53 + (e - 52)" by simp
    then show ?thesis unfolding u_def by (simp only: pow2_add)
  qed
  finally have "\<bar>q\<bar> / u < pow2 53" using u by (simp add: pos_divide_less_eq)
  then have "\<bar>q\<bar> / u < of_int (2 ^ 53)" by (simp add: pow2_def)
  then have m_le: "m \<le> 2 ^ 53" unfolding m_def by (rule round_half_even_upper)
  have m_ge: "0 \<le> m" unfolding m_def using u by (intro round_half_even_nonneg) simp
  have near: "\<bar>of_int m - \<bar>q\<bar> / u\<bar> \<le> 1 / 2"
    unfolding m_def by (rule round_half_even_nearest)
  have "\<bar>of_int m * u - \<bar>q\<bar>\<bar> = \<bar>of_int m - \<bar>q\<bar> / u\<bar> * u"
  proof -
    have "of_int m * u - \<bar>q\<bar> = (of_int m - \<bar>q\<bar> / u) * u"
      using u by (simp add: field_simps)
    then show ?thesis using u by (simp add: abs_mult)
  qed
  also have "\<dots> \<le> 1 / 2 * u" using near u by (intro mult_right_mono) simp_all
  also have "\<dots> = pow2 (e - 53)" by (simp add: u_def pow2_half)
  finally have err: "\<bar>of_int m * u - \<bar>q\<bar>\<bar> \<le> pow2 (e - 53)" .
  have "r - q = sgn q * (of_int m * u - \<bar>q\<bar>)"
    using False by (simp add: r right_diff_distrib abs_sgn_eq sgn_if)
  then have "\<bar>r - q\<bar> = \<bar>of_int m * u - \<bar>q\<bar>\<bar>"
    using False by (simp add: abs_mult sgn_if)
  with err have err': "\<bar>r - q\<bar> \<le> pow2 (e - 53)" by simp
  have m_big: "2 ^ 52 \<le> m" if "pow2 (- 1022) \<le> \<bar>q\<bar>"
  proof -
    have "- 1022 \<le> ilog2 \<bar>q\<bar>"
    proof (rule ccontr)
      assume "\<not> - 1022 \<le> ilog2 \<bar>q\<bar>"
      then have "pow2 (ilog2 \<bar>q\<bar> + 1) \<le> pow2 (- 1022)" by (intro pow2_mono) simp
      with ilog2_bounds [OF qpos] that show False by simp
    qed
    then have "e = ilog2 \<bar>q\<bar>" by (simp add: e_def)
    with ilog2_bounds [OF qpos] have "pow2 e \<le> \<bar>q\<bar>" by simp
    moreover have "pow2 e = pow2 52 * u"
    proof -
      have "e = 52 + (e - 52)" by simp
      then have "pow2 e = pow2 (52 + (e - 52))" by simp
      then show ?thesis unfolding u_def by (simp only: pow2_add)
    qed
    ultimately have "pow2 52 \<le> \<bar>q\<bar> / u" using u by (simp add: pos_le_divide_eq)
    then have "of_int (2 ^ 52) \<le> \<bar>q\<bar> / u" by (simp add: pow2_def)
    then show ?thesis unfolding m_def by (rule round_half_even_lower)
  qed
  define m' where "m' = (if 0 < q then m else - m)"
  have "r = of_int m' * pow2 (e - 52)"
    using False by (simp add: r m'_def u_def sgn_if)
  moreover have "\<bar>m'\<bar> \<le> 2 ^ 53" using m_le m_ge by (simp add: m'_def)
  moreover have "e = 1023 \<longrightarrow> \<bar>m'\<bar> < 2 ^ 53" using fin m_ge by (auto simp: m'_def)
  moreover have "pow2 (- 1022) \<le> \<bar>q\<bar> \<longrightarrow> 2 ^ 52 \<le> \<bar>m'\<bar>"
    using m_big m_ge by (auto simp: m'_def)
  moreover have "- 1022 \<le> e" by (simp add: e_def)
  moreover have "e \<le> 1023" using fin by simp
  ultimately show ?thesis using err' by blast
qed

subsection \<open>Blank content and the brace span\<close>

lemma trim_Nil_iff: "trim s = [] \<longleftrightarrow> (\<forall>c\<in>set s. isWhiteSpace c)"
proof
  assume "trim s = []"
  then have "dropWhile isWhiteSpace (rev (dropWhile isWhiteSpace s)) = []"
    by (simp add: trim_def)
  then have all: "\<forall>c\<in>set (dropWhile isWhiteSpace s). isWhiteSpace c"
    by (simp add: dropWhile_eq_Nil_conv)
  have "dropWhile isWhiteSpace s = []"
  proof (rule ccontr)
    assume ne: "dropWhile isWhiteSpace s \<noteq> []"
    then have "\<not> isWhiteSpace (hd (dropWhile isWhiteSpace s))"
      by (rule hd_dropWhile)
    moreover from ne have "hd (dropWhile isWhiteSpace s) \<in> set (dropWhile isWhiteSpace s)"
      by simp
    ultimately show False using all by blast
  qed
  then show "\<forall>c\<in>set s. isWhiteSpace c"
    by (simp add: dropWhile_eq_Nil_conv)
next
  assume "\<forall>c\<in>set s. isWhiteSpace c"
  then show "trim s = []"
    by (auto simp: trim_def dest: set_dropWhileD)
qed

lemma Truncated_neq_Empty: "TruncatedResponse \<noteq> EmptyResponse fr"
  by (simp add: TruncatedResponse_def EmptyResponse_def)

lemma blank_fails:
  assumes "content data = None \<or> (\<exists>text. content data = Some text \<and> (\<forall>c\<in>set text. isWhiteSpace c))"
  shows "callOpenAIAPI JSON_parse modelPrices modelId elapsed data =
           Inl (if finish_reason data = ''length'' then TruncatedResponse
                else EmptyResponse (finish_reason data))"
  using assms by (auto simp: callOpenAIAPI_def trim_Nil_iff)

lemma greedyClose_eq:
  "greedyClose cs =
     (let t = rev (dropWhile (\<lambda>c. c \<noteq> CHR ''}'') (rev cs)) in if t = [] then None else Some t)"
  by (induction cs) (auto simp: Let_def dropWhile_append dropWhile_eq_Nil_conv)

lemma jsonMatch_no_close: "CHR ''}'' \<notin> set s \<Longrightarrow> jsonMatch s = None"
  by (induction s) (auto simp: matchHere_def greedyClose_eq Let_def dropWhile_eq_Nil_conv)

lemma jsonMatch_braceSpan: "jsonMatch s = braceSpan s"
proof (induction s)
  case Nil
  show ?case by (simp add: braceSpan_def)
next
  case (Cons c cs)
  show ?case
  proof (cases "c = CHR ''{''")
    case False
    then show ?thesis using Cons by (simp add: matchHere_def braceSpan_def)
  next
    case True
    show ?thesis
    proof (cases "CHR ''}'' \<in> set cs")
      case False
      then have "jsonMatch cs = None" by (rule jsonMatch_no_close)
      with True False show ?thesis
        by (auto simp: matchHere_def braceSpan_def greedyClose_eq Let_def dropWhile_append
            dropWhile_eq_Nil_conv)
    next
      case yes: True
      with True show ?thesis
        by (auto simp: matchHere_def braceSpan_def greedyClose_eq Let_def dropWhile_append
            dropWhile_eq_Nil_conv)
    qed
  qed
qed

lemma dropWhile_skip:
  "\<forall>x\<in>set xs. P x \<Longrightarrow> \<not> P y \<Longrightarrow> dropWhile P (xs @ y # ys) = y # ys"
  by (induction xs) auto

lemma braceSpan_embedded:
  assumes "CHR ''{'' \<notin> set pre" and "CHR ''}'' \<notin> set post"
  shows "braceSpan (pre @ CHR ''{'' # mid @ CHR ''}'' # post) = Some (CHR ''{'' # mid @ [CHR ''}''])"
proof -
  have 1: "dropWhile (\<lambda>c. c \<noteq> CHR ''{'') (pre @ CHR ''{'' # mid @ CHR ''}'' # post)
             = CHR ''{'' # mid @ CHR ''}'' # post"
    using assms(1) by (intro dropWhile_skip) auto
  have "rev (CHR ''{'' # mid @ CHR ''}'' # post) = rev post @ CHR ''}'' # (rev mid @ [CHR ''{''])"
    by simp
  moreover have "dropWhile (\<lambda>c. c \<noteq> CHR ''}'') (rev post @ CHR ''}'' # (rev mid @ [CHR ''{'']))
             = CHR ''}'' # (rev mid @ [CHR ''{''])"
    using assms(2) by (intro dropWhile_skip) auto
  ultimately have 2: "dropWhile (\<lambda>c. c \<noteq> CHR ''}'') (rev (CHR ''{'' # mid @ CHR ''}'' # post))
             = CHR ''}'' # (rev mid @ [CHR ''{''])"
    by simp
  show ?thesis
    unfolding braceSpan_def Let_def 1 2 by simp
qed

subsection \<open>The executor rejects blank content\<close>

text \<open>
  Claim C9.  When the completion content is \<open>null\<close>, empty or made of whitespace only,
  \<open>callOpenAIAPI\<close> throws: the truncation error if and only if the finish reason is
  \<open>length\<close>, and otherwise the empty-response error, whose message ends with the finish
  reason.  The outcome is the same for every \<open>JSON.parse\<close>, catalog and usage record:
  neither normalization nor the cost calculation takes part in it.
\<close>

theorem empty_content_fails:
  assumes "content data = None \<or> (\<exists>text. content data = Some text \<and> (\<forall>c\<in>set text. isWhiteSpace c))"
  shows "callOpenAIAPI JSON_parse modelPrices modelId elapsed data =
           Inl (if finish_reason data = ''length'' then TruncatedResponse
                else EmptyResponse (finish_reason data))
       \<and> (callOpenAIAPI JSON_parse modelPrices modelId elapsed data = Inl TruncatedResponse
            \<longleftrightarrow> finish_reason data = ''length'')"
  using blank_fails [OF assms, of JSON_parse modelPrices modelId elapsed]
  by (simp add: Truncated_neq_Empty [symmetric])

theorem empty_content_fails_witness:
  "callOpenAIAPI (\<lambda>m. None) None ''gpt-4o'' (Fin 1200)
      \<lparr>content = Some [CHR '' '', CHR 0x0A, CHR '' ''], finish_reason = ''length'', usage = None\<rparr>
     = Inl (Error ''Model ran out of tokens before completing the response.'')
   \<and> callOpenAIAPI (\<lambda>m. None) None ''gpt-4o'' (Fin 1200)
      \<lparr>content = Some [], finish_reason = ''stop'',
       usage = Some [''prompt_tokens'' \<mapsto> Num (Fin 1000)]\<rparr>
     = Inl (Error ''Received empty response from API. Finish reason: stop'')"
proof -
  have ws: "content \<lparr>content = Some [CHR '' '', CHR 0x0A, CHR '' ''], finish_reason = ''length'',
                usage = None\<rparr> = None
          \<or> (\<exists>text. content \<lparr>content = Some [CHR '' '', CHR 0x0A, CHR '' ''],
                 finish_reason = ''length'', usage = None\<rparr> = Some text
               \<and> (\<forall>c\<in>set text. isWhiteSpace c))"
    by (simp add: isWhiteSpace_def)
  have em: "content \<lparr>content = Some [], finish_reason = ''stop'',
                usage = Some [''prompt_tokens'' \<mapsto> Num (Fin 1000)]\<rparr> = None
          \<or> (\<exists>text. content \<lparr>content = Some [], finish_reason = ''stop'',
                 usage = Some [''prompt_tokens'' \<mapsto> Num (Fin 1000)]\<rparr> = Some text
               \<and> (\<forall>c\<in>set text. isWhiteSpace c))"
    by simp
  show ?thesis
    using empty_content_fails [OF ws, of "\<lambda>m. None" None "''gpt-4o''" "Fin 1200"]
      empty_content_fails [OF em, of "\<lambda>m. None" None "''gpt-4o''" "Fin 1200"]
    by (simp add: TruncatedResponse_def EmptyResponse_def)
qed

subsection \<open>The candidate span and a grouping object inside prose\<close>

lemma tryParse_embedded:
  assumes "CHR ''{'' \<notin> set pre" and "CHR ''}'' \<notin> set post"
    and "JSON_parse (CHR ''{'' # mid @ [CHR ''}'']) = Some doc"
  shows "normalizeResponse JSON_parse (pre @ (CHR ''{'' # mid @ [CHR ''}'']) @ post) = doc"
  using assms
  by (simp add: normalizeResponse_def tryParse_def jsonMatch_braceSpan braceSpan_embedded)

lemma length_concat_const:
  "\<forall>x\<in>set xs. length (f x) = k \<Longrightarrow> length (concat (map f xs)) = k * length xs"
  by (induction xs) auto

lemma groups_TextFallback: "groups (TextFallback t) = None"
  by (simp add: groups_def TextFallback_def)

text \<open>
  Claim C7.  The text matched by the pattern is the text from the first \<open>{\<close> to the last
  \<open>}\<close>, with no balancing.  Hence, when an object text stands between a prefix without
  \<open>{\<close> and a suffix without \<open>}\<close> (in particular between prose without braces) and
  \<open>JSON.parse\<close> reads it as a document with four groups of four words, the match is that
  object text and the result is that document, not the text result: four groups, sixteen
  words.
\<close>

theorem greedy_brace_span:
  "jsonMatch rawText = braceSpan rawText
   \<and> (CHR ''{'' \<notin> set pre \<and> CHR ''}'' \<notin> set post
        \<and> JSON_parse (CHR ''{'' # mid @ [CHR ''}'']) = Some doc
        \<and> groups doc = Some gs \<and> length gs = 4 \<and> (\<forall>g\<in>set gs. length (wordsOf g) = 4)
      \<longrightarrow> jsonMatch (pre @ (CHR ''{'' # mid @ [CHR ''}'']) @ post) = Some (CHR ''{'' # mid @ [CHR ''}''])
        \<and> normalizeResponse JSON_parse (pre @ (CHR ''{'' # mid @ [CHR ''}'']) @ post) = doc
        \<and> normalizeResponse JSON_parse (pre @ (CHR ''{'' # mid @ [CHR ''}'']) @ post)
              \<noteq> TextFallback (pre @ (CHR ''{'' # mid @ [CHR ''}'']) @ post)
        \<and> length gs = 4 \<and> length (concat (map wordsOf gs)) = 16)"
proof (intro conjI impI)
  show "jsonMatch rawText = braceSpan rawText" by (rule jsonMatch_braceSpan)
next
  assume h: "CHR ''{'' \<notin> set pre \<and> CHR ''}'' \<notin> set post
        \<and> JSON_parse (CHR ''{'' # mid @ [CHR ''}'']) = Some doc
        \<and> groups doc = Some gs \<and> length gs = 4 \<and> (\<forall>g\<in>set gs. length (wordsOf g) = 4)"
  then show "jsonMatch (pre @ (CHR ''{'' # mid @ [CHR ''}'']) @ post) = Some (CHR ''{'' # mid @ [CHR ''}''])"
    by (simp add: jsonMatch_braceSpan braceSpan_embedded)
  from h have n: "normalizeResponse JSON_parse (pre @ (CHR ''{'' # mid @ [CHR ''}'']) @ post) = doc"
    using tryParse_embedded [of pre post JSON_parse mid doc] by blast
  then show "normalizeResponse JSON_parse (pre @ (CHR ''{'' # mid @ [CHR ''}'']) @ post) = doc" .
  from h have "groups doc \<noteq> None" by simp
  then have "doc \<noteq> TextFallback (pre @ (CHR ''{'' # mid @ [CHR ''}'']) @ post)"
    using groups_TextFallback by metis
  with n show "normalizeResponse JSON_parse (pre @ (CHR ''{'' # mid @ [CHR ''}'']) @ post)
              \<noteq> TextFallback (pre @ (CHR ''{'' # mid @ [CHR ''}'']) @ post)"
    by simp
  from h show "length gs = 4" by simp
  from h have "length (concat (map wordsOf gs)) = 4 * length gs"
    by (intro length_concat_const) simp
  with h show "length (concat (map wordsOf gs)) = 16" by simp
qed

theorem greedy_brace_span_witness:
  "jsonMatch (''Here is the solution: '' @ solutionText @ '' Good luck!'') = Some solutionText
   \<and> normalizeResponse parseSolutionOnly (''Here is the solution: '' @ solutionText @ '' Good luck!'')
       = solutionDocument
   \<and> groups solutionDocument = Some solutionGroups
   \<and> length solutionGroups = 4
   \<and> length (concat (map wordsOf solutionGroups)) = 16"
proof -
  define mid where "mid = butlast (tl solutionText)"
  have obj: "solutionText = CHR ''{'' # mid @ [CHR ''}'']"
    by (simp add: mid_def solutionText_def)
  have pre: "CHR ''{'' \<notin> set ''Here is the solution: ''" by simp
  have post: "CHR ''}'' \<notin> set '' Good luck!''" by simp
  have parse: "parseSolutionOnly (CHR ''{'' # mid @ [CHR ''}'']) = Some solutionDocument"
    using obj by (simp add: parseSolutionOnly_def)
  have gs: "groups solutionDocument = Some solutionGroups"
    by (simp add: groups_def solutionDocument_def)
  have len: "length solutionGroups = 4"
    by (simp add: solutionGroups_def)
  have ws: "\<forall>g\<in>set solutionGroups. length (wordsOf g) = 4"
    by (simp add: solutionGroups_def)
  show ?thesis
    using greedy_brace_span [of "[]" "''Here is the solution: ''" "'' Good luck!''"
        parseSolutionOnly mid solutionDocument solutionGroups]
      pre post parse gs len ws obj
    by simp
qed

subsection \<open>Normalization absorbs a failed parse\<close>

lemma normalize_no_span: "jsonMatch rawText = None \<Longrightarrow> normalizeResponse JSON_parse rawText = TextFallback rawText"
  by (simp add: normalizeResponse_def tryParse_def TextFallback_def)

lemma normalize_parse_fails:
  "jsonMatch rawText = Some m \<Longrightarrow> JSON_parse m = None \<Longrightarrow> normalizeResponse JSON_parse rawText = TextFallback rawText"
  by (simp add: normalizeResponse_def tryParse_def TextFallback_def)

lemma nonblank_returns:
  assumes "text \<noteq> []" and "trim text \<noteq> []"
  shows "\<exists>r. callOpenAIAPI JSON_parse modelPrices modelId elapsed
               \<lparr>content = Some text, finish_reason = fr, usage = u\<rparr> = Inr r
             \<and> parsed r = normalizeResponse JSON_parse text"
  using assms by (simp add: callOpenAIAPI_def)

text \<open>
  Claim C8.  When the text has no brace span, or \<open>JSON.parse\<close> throws on the span, the
  result of normalization is the text result with the raw text unchanged; the throw is
  caught.  For a text that is not blank, \<open>callOpenAIAPI\<close> then returns a result with
  that content and throws nothing.
\<close>

theorem normalize_never_raises:
  assumes "jsonMatch rawText = None \<or> (\<exists>m. jsonMatch rawText = Some m \<and> JSON_parse m = None)"
  shows "normalizeResponse JSON_parse rawText = TextFallback rawText
       \<and> (rawText \<noteq> [] \<and> trim rawText \<noteq> []
            \<longrightarrow> (\<exists>r. callOpenAIAPI JSON_parse modelPrices modelId elapsed
                       \<lparr>content = Some rawText, finish_reason = fr, usage = u\<rparr> = Inr r
                     \<and> parsed r = TextFallback rawText))"
proof -
  from assms have n: "normalizeResponse JSON_parse rawText = TextFallback rawText"
    by (auto simp: normalize_no_span normalize_parse_fails)
  show ?thesis
    using n nonblank_returns [of rawText JSON_parse modelPrices modelId elapsed fr u]
    by auto
qed

theorem normalize_never_raises_witness:
  "normalizeResponse parseSolutionOnly ''I could not find any words in this image.''
     = [(''textResponse'', JString ''I could not find any words in this image.'')]
   \<and> jsonMatch ''{\"groups\":[{\"theme\":\"Fruits\"},{\"theme'' = Some ''{\"groups\":[{\"theme\":\"Fruits\"}''
   \<and> parseSolutionOnly ''{\"groups\":[{\"theme\":\"Fruits\"}'' = None
   \<and> normalizeResponse parseSolutionOnly ''{\"groups\":[{\"theme\":\"Fruits\"},{\"theme''
     = [(''textResponse'', JString ''{\"groups\":[{\"theme\":\"Fruits\"},{\"theme'')]
   \<and> (\<exists>r. callOpenAIAPI parseSolutionOnly None ''gpt-4o'' (Fin 1200)
            \<lparr>content = Some ''{\"groups\":[{\"theme\":\"Fruits\"},{\"theme'',
             finish_reason = ''length'', usage = None\<rparr> = Inr r
          \<and> parsed r = [(''textResponse'', JString ''{\"groups\":[{\"theme\":\"Fruits\"},{\"theme'')])"
proof -
  have none: "jsonMatch ''I could not find any words in this image.'' = None"
    by (simp add: jsonMatch_braceSpan braceSpan_def)
  have span: "jsonMatch ''{\"groups\":[{\"theme\":\"Fruits\"},{\"theme''
                = Some ''{\"groups\":[{\"theme\":\"Fruits\"}''"
    by (simp add: jsonMatch_braceSpan braceSpan_def)
  have fails: "parseSolutionOnly ''{\"groups\":[{\"theme\":\"Fruits\"}'' = None"
    by (simp add: parseSolutionOnly_def solutionText_def)
  have nb: "trim ''{\"groups\":[{\"theme\":\"Fruits\"},{\"theme'' \<noteq> []"
    by (simp add: trim_Nil_iff isWhiteSpace_def)
  show ?thesis
    using normalize_never_raises [of "''I could not find any words in this image.''"
        parseSolutionOnly None "''gpt-4o''" "Fin 1200" "''length''" None]
      normalize_never_raises [of "''{\"groups\":[{\"theme\":\"Fruits\"},{\"theme''"
        parseSolutionOnly None "''gpt-4o''" "Fin 1200" "''length''" None]
      none span fails nb
    by (simp add: TextFallback_def)
qed

subsection \<open>The fields of the breakdown\<close>

lemma promptTokens_eq:
  "promptTokens (calculateCost mp m u) = js_or (get u ''prompt_tokens'') (Fin 0)"
  by (simp add: calculateCost_def Let_def split: prod.splits)

lemma completionTokens_eq:
  "completionTokens (calculateCost mp m u) = js_or (get u ''completion_tokens'') (Fin 0)"
  by (simp add: calculateCost_def Let_def split: prod.splits)

lemma totalTokens_eq:
  "totalTokens (calculateCost mp m u) =
     js_or (get u ''total_tokens'')
       (js_add (js_or (get u ''prompt_tokens'') (Fin 0)) (js_or (get u ''completion_tokens'') (Fin 0)))"
  by (simp add: calculateCost_def Let_def split: prod.splits)

lemma inputCost_eq:
  "inputCost (calculateCost mp m u) =
     js_mul (js_or (get u ''prompt_tokens'') (Fin 0)) (ToNumber (fst (resolvePrices mp m)))"
  by (simp add: calculateCost_def Let_def split: prod.splits)

lemma outputCost_eq:
  "outputCost (calculateCost mp m u) =
     js_mul (js_or (get u ''completion_tokens'') (Fin 0)) (ToNumber (snd (resolvePrices mp m)))"
  by (simp add: calculateCost_def Let_def split: prod.splits)

lemma totalCost_eq:
  "totalCost (calculateCost mp m u) =
     js_add (inputCost (calculateCost mp m u)) (outputCost (calculateCost mp m u))"
  by (simp add: calculateCost_def Let_def split: prod.splits)

subsection \<open>Resolution in the fallback table\<close>

lemma includes_str_sublist: "includes_str s t \<longleftrightarrow> sublist t s"
  by (induction s) (auto simp: sublist_Cons_right)

lemma scanEntries_find:
  "scanEntries ml es =
     map_option snd (find (\<lambda>(key, value). includes_str ml (toLowerCase key)) es)"
  by (induction es) auto

lemma keys_lower:
  "toLowerCase ''gpt-4o'' = ''gpt-4o''"
  "toLowerCase ''gpt-4o-mini'' = ''gpt-4o-mini''"
  "toLowerCase ''gpt-4-turbo'' = ''gpt-4-turbo''"
  "toLowerCase ''gpt-4'' = ''gpt-4''"
  "toLowerCase ''default'' = ''default''"
  by (simp_all add: toLowerCase_def lower_unit_def)

lemma proto_not_key:
  "m \<in> set Object_prototype_names \<Longrightarrow> map_of fallbackPricing m = None"
  by (auto simp: Object_prototype_names_def fallbackPricing_def)



lemma map_of_fallback_keys:
  "map_of fallbackPricing m = None \<longleftrightarrow> m \<notin> fst ` set fallbackPricing"
  by (simp add: map_of_eq_None_iff)

lemma fallbackModelPricing_own:
  "map_of fallbackPricing m = Some p \<Longrightarrow> fallbackModelPricing m = Own p"
  by (simp add: fallbackModelPricing_def js_index_def)

lemma fallbackModelPricing_inherited:
  "m \<in> set Object_prototype_names \<Longrightarrow> fallbackModelPricing m = Inherited"
  by (simp add: fallbackModelPricing_def js_index_def proto_not_key)

lemma default_entry: "js_index (map_of fallbackPricing) ''default'' = Own \<lparr>input = Fin 5, output = Fin 15\<rparr>"
  by (simp add: js_index_def fallbackPricing_def)

lemma fallbackModelPricing_scan:
  assumes "m \<notin> fst ` set fallbackPricing" and "m \<notin> set Object_prototype_names"
  shows "fallbackModelPricing m =
           (case scanEntries (toLowerCase m) fallbackPricing of
              Some value \<Rightarrow> Own value
            | None \<Rightarrow> Own \<lparr>input = Fin 5, output = Fin 15\<rparr>)"
proof -
  from assms(1) have "map_of fallbackPricing m = None"
    by (simp add: map_of_eq_None_iff)
  with assms(2) have "js_index (map_of fallbackPricing) m = Absent"
    by (simp add: js_index_def)
  then show ?thesis
    by (simp add: fallbackModelPricing_def default_entry split: option.splits)
qed

lemma fallbackModelPricing_not_Absent: "fallbackModelPricing m \<noteq> Absent"
proof (cases "map_of fallbackPricing m")
  case (Some p)
  then show ?thesis by (simp add: fallbackModelPricing_own)
next
  case None
  show ?thesis
  proof (cases "m \<in> set Object_prototype_names")
    case True
    then show ?thesis by (simp add: fallbackModelPricing_inherited)
  next
    case False
    with None show ?thesis
      by (simp add: fallbackModelPricing_scan map_of_fallback_keys split: option.splits)
  qed
qed

lemma resolvePrices_fallback:
  "usesFallback mp m \<Longrightarrow> resolvePrices mp m = fallbackPerToken m"
  by (auto simp: usesFallback_def resolvePrices_def split: prod.splits)

lemma resolvePrices_catalog:
  "\<not> usesFallback mp m \<Longrightarrow> resolvePrices mp m = catalogPrices mp m"
  by (auto simp: usesFallback_def resolvePrices_def split: prod.splits)

lemma usesFallback_no_catalog: "usesFallback None m"
  by (simp add: usesFallback_def catalogPrices_def)

lemma fallbackPerToken_own:
  "fallbackModelPricing m = Own p \<Longrightarrow>
   fallbackPerToken m = (Num (js_div (input p) (Fin 1000000)), Num (js_div (output p) (Fin 1000000)))"
  by (simp add: fallbackPerToken_def)






subsection \<open>The total token count\<close>

lemma js_or_truthy: "d \<noteq> Fin 0 \<Longrightarrow> d \<noteq> NaN \<Longrightarrow> js_or (Num d) e = d"
  by (simp add: js_or_def)

lemma js_or_falsy:
  "js_or Undefined e = e" "js_or Null e = e" "js_or (Num (Fin 0)) e = e" "js_or (Num NaN) e = e"
  by (simp_all add: js_or_def)

lemma small_sums:
  "js_add (Fin 5) (Fin 3) = Fin 8"
  "js_add (Fin 1000) (Fin 500) = Fin 1500"
  by code_simp+

text \<open>
  Claim C3, amended.  \<open>totalTokens\<close> is \<open>usage.total_tokens || (promptTokens +
  completionTokens)\<close>: it is the record's \<open>total_tokens\<close> when that field is present and a
  Number other than \<open>0\<close> and \<open>NaN\<close>; it is the sum of the prompt and completion counts when
  the field is absent, and also when it is present with the value \<open>0\<close> or \<open>null\<close>.  As
  stated the claim fails for a present \<open>total_tokens\<close> of \<open>0\<close>: with prompt 5 and
  completion 3 the result is 8.
\<close>

theorem totalTokens_truthy_or_sum:
  "(usageRecord ''total_tokens'' = Some (Num d) \<and> d \<noteq> Fin 0 \<and> d \<noteq> NaN \<longrightarrow>
      totalTokens (calculateCost modelPrices modelId usageRecord) = d)
   \<and> (usageRecord ''total_tokens'' = None \<longrightarrow>
      totalTokens (calculateCost modelPrices modelId usageRecord) =
        js_add (promptTokens (calculateCost modelPrices modelId usageRecord))
               (completionTokens (calculateCost modelPrices modelId usageRecord)))
   \<and> (usageRecord ''total_tokens'' = Some (Num (Fin 0)) \<or> usageRecord ''total_tokens'' = Some Null \<longrightarrow>
      totalTokens (calculateCost modelPrices modelId usageRecord) =
        js_add (promptTokens (calculateCost modelPrices modelId usageRecord))
               (completionTokens (calculateCost modelPrices modelId usageRecord)))"
  by (auto simp: totalTokens_eq promptTokens_eq completionTokens_eq get_def js_or_truthy js_or_falsy)

theorem totalTokens_truthy_or_sum_witness:
  "totalTokens (calculateCost None ''gpt-4o''
      [''prompt_tokens'' \<mapsto> Num (Fin 1000), ''completion_tokens'' \<mapsto> Num (Fin 500),
       ''total_tokens'' \<mapsto> Num (Fin 1234)]) = Fin 1234
   \<and> totalTokens (calculateCost None ''gpt-4o''
      [''prompt_tokens'' \<mapsto> Num (Fin 1000), ''completion_tokens'' \<mapsto> Num (Fin 500)]) = Fin 1500
   \<and> totalTokens (calculateCost None ''gpt-4o''
      [''prompt_tokens'' \<mapsto> Num (Fin 1000), ''completion_tokens'' \<mapsto> Num (Fin 500),
       ''total_tokens'' \<mapsto> Null]) = Fin 1500"
  using totalTokens_truthy_or_sum [of "[''prompt_tokens'' \<mapsto> Num (Fin 1000),
          ''completion_tokens'' \<mapsto> Num (Fin 500), ''total_tokens'' \<mapsto> Num (Fin 1234)]"
        "Fin 1234" None "''gpt-4o''"]
    totalTokens_truthy_or_sum [of "[''prompt_tokens'' \<mapsto> Num (Fin 1000),
          ''completion_tokens'' \<mapsto> Num (Fin 500)]" NaN None "''gpt-4o''"]
    totalTokens_truthy_or_sum [of "[''prompt_tokens'' \<mapsto> Num (Fin 1000),
          ''completion_tokens'' \<mapsto> Num (Fin 500), ''total_tokens'' \<mapsto> Null]" NaN None "''gpt-4o''"]
  by (simp add: promptTokens_eq completionTokens_eq get_def js_or_truthy small_sums del: js_add.simps)

theorem totalTokens_present_zero:
  "get [''prompt_tokens'' \<mapsto> Num (Fin 5), ''completion_tokens'' \<mapsto> Num (Fin 3),
        ''total_tokens'' \<mapsto> Num (Fin 0)] ''total_tokens'' = Num (Fin 0)
   \<and> totalTokens (calculateCost None ''gpt-4o''
      [''prompt_tokens'' \<mapsto> Num (Fin 5), ''completion_tokens'' \<mapsto> Num (Fin 3),
       ''total_tokens'' \<mapsto> Num (Fin 0)]) = Fin 8"
  by (simp add: totalTokens_eq get_def js_or_truthy js_or_falsy small_sums del: js_add.simps)

subsection \<open>Prices of the fallback table per token\<close>

lemma per_token_gpt4o_input:
  "js_div (Fin (5 / 2)) (Fin 1000000) = Fin (5902958103587057 / 2361183241434822606848)"
  by code_simp

lemma per_token_gpt4o_output:
  "js_div (Fin 10) (Fin 1000000) = Fin (5902958103587057 / 590295810358705651712)"
  by code_simp

lemma per_token_mini_input:
  "js_div (double_of_rat (15 / 100)) (Fin 1000000) = Fin (2833419889721787 / 18889465931478580854784)"
  by code_simp

lemma per_token_mini_output:
  "js_div (double_of_rat (60 / 100)) (Fin 1000000) = Fin (2833419889721787 / 4722366482869645213696)"
  by code_simp

lemma per_token_30:
  "js_div (Fin 30) (Fin 1000000) = Fin (8854437155380585 / 295147905179352825856)"
  by code_simp

lemma per_token_60:
  "js_div (Fin 60) (Fin 1000000) = Fin (8854437155380585 / 147573952589676412928)"
  by code_simp

lemma per_token_default_input:
  "js_div (Fin 5) (Fin 1000000) = Fin (5902958103587057 / 1180591620717411303424)"
  by code_simp

lemma per_token_default_output:
  "js_div (Fin 15) (Fin 1000000) = Fin (8854437155380585 / 590295810358705651712)"
  by code_simp

lemmas per_token_values =
  per_token_gpt4o_input per_token_gpt4o_output per_token_mini_input per_token_mini_output
  per_token_30 per_token_60 per_token_default_input per_token_default_output

lemma table_per_token_finite:
  assumes "p \<in> snd ` set fallbackPricing"
  shows "\<exists>a b. js_div (input p) (Fin 1000000) = Fin a \<and> js_div (output p) (Fin 1000000) = Fin b"
proof -
  from assms have "p = \<lparr>input = Fin (5 / 2), output = Fin 10\<rparr>
      \<or> p = \<lparr>input = double_of_rat (15 / 100), output = double_of_rat (60 / 100)\<rparr>
      \<or> p = \<lparr>input = Fin 10, output = Fin 30\<rparr>
      \<or> p = \<lparr>input = Fin 30, output = Fin 60\<rparr>
      \<or> p = \<lparr>input = Fin 5, output = Fin 15\<rparr>"
    unfolding fallbackPricing_def
    by (simp only: list.set image_insert image_empty snd_conv insert_iff empty_iff) blast
  then show ?thesis
    by (elim disjE) (simp only: pricing.select_convs per_token_values, blast)+
qed

lemma scanEntries_member: "scanEntries ml es = Some v \<Longrightarrow> v \<in> snd ` set es"
  by (induction es) (auto split: if_splits)

lemma fallbackModelPricing_member:
  assumes "fallbackModelPricing m = Own p"
  shows "p \<in> snd ` set fallbackPricing"
proof (cases "map_of fallbackPricing m")
  case (Some q)
  then have "fallbackModelPricing m = Own q" by (rule fallbackModelPricing_own)
  with assms have "q = p" by simp
  with Some have "(m, p) \<in> set fallbackPricing" by (simp add: map_of_SomeD)
  then show ?thesis by force
next
  case None
  show ?thesis
  proof (cases "m \<in> set Object_prototype_names")
    case True
    with assms show ?thesis by (simp add: fallbackModelPricing_inherited)
  next
    case False
    from None have nk: "m \<notin> fst ` set fallbackPricing" by (simp add: map_of_eq_None_iff)
    show ?thesis
    proof (cases "scanEntries (toLowerCase m) fallbackPricing")
      case (Some v)
      with assms nk False have "v = p" by (simp add: fallbackModelPricing_scan)
      with Some show ?thesis by (simp add: scanEntries_member)
    next
      case none: None
      with assms nk False have "p = \<lparr>input = Fin 5, output = Fin 15\<rparr>"
        by (simp add: fallbackModelPricing_scan)
      then show ?thesis by (simp add: fallbackPricing_def)
    qed
  qed
qed

lemma fallback_prices_finite:
  assumes "m \<notin> set Object_prototype_names"
  shows "\<exists>a b. fallbackPerToken m = (Num (Fin a), Num (Fin b))"
proof -
  obtain p where own: "fallbackModelPricing m = Own p"
  proof (cases "fallbackModelPricing m")
    case (Own p)
    then show ?thesis by (rule that)
  next
    case Inherited
    have "map_of fallbackPricing m = None \<or> (\<exists>q. map_of fallbackPricing m = Some q)" by auto
    then show ?thesis
    proof
      assume "map_of fallbackPricing m = None"
      then have "m \<notin> fst ` set fallbackPricing" by (simp add: map_of_eq_None_iff)
      with assms Inherited show ?thesis
        by (simp add: fallbackModelPricing_scan split: option.splits)
    next
      assume "\<exists>q. map_of fallbackPricing m = Some q"
      with Inherited show ?thesis by (auto simp: fallbackModelPricing_own)
    qed
  next
    case Absent
    then show ?thesis by (simp add: fallbackModelPricing_not_Absent)
  qed
  from own have "p \<in> snd ` set fallbackPricing" by (rule fallbackModelPricing_member)
  then obtain a b where "js_div (input p) (Fin 1000000) = Fin a" "js_div (output p) (Fin 1000000) = Fin b"
    using table_per_token_finite by blast
  with own show ?thesis by (simp add: fallbackPerToken_own)
qed

lemma double_of_rat_zero: "double_of_rat 0 = Fin 0"
  by (simp add: double_of_rat_def)

subsection \<open>The scenario with model gpt-4o\<close>

text \<open>
  Claim C4.  With no catalog, \<open>calculateCost('gpt-4o', {prompt_tokens: 1000,
  completion_tokens: 500, total_tokens: 1500})\<close> returns the Numbers that the literals
  \<open>0.0025\<close>, \<open>0.005\<close> and \<open>0.0075\<close> denote: the prices 2.50 and 10.00 divided by
  \<open>1_000_000\<close>, multiplied by the token counts, and added, each step rounded to binary64.
\<close>

theorem gpt4o_scenario:
  "calculateCost None ''gpt-4o''
     [''prompt_tokens'' \<mapsto> Num (Fin 1000), ''completion_tokens'' \<mapsto> Num (Fin 500),
      ''total_tokens'' \<mapsto> Num (Fin 1500)]
   = \<lparr>inputCost = double_of_rat (25 / 10000),
      outputCost = double_of_rat (5 / 1000),
      totalCost = double_of_rat (75 / 10000),
      promptTokens = Fin 1000, completionTokens = Fin 500, totalTokens = Fin 1500\<rparr>
   \<and> resolvePrices None ''gpt-4o'' =
       (Num (js_div (Fin (5 / 2)) (Fin 1000000)), Num (js_div (Fin 10) (Fin 1000000)))
   \<and> js_mul (Fin 1000) (js_div (Fin (5 / 2)) (Fin 1000000)) = double_of_rat (25 / 10000)
   \<and> js_mul (Fin 500) (js_div (Fin 10) (Fin 1000000)) = double_of_rat (5 / 1000)
   \<and> js_add (double_of_rat (25 / 10000)) (double_of_rat (5 / 1000)) = double_of_rat (75 / 10000)"
proof (intro conjI)
  show "calculateCost None ''gpt-4o''
     [''prompt_tokens'' \<mapsto> Num (Fin 1000), ''completion_tokens'' \<mapsto> Num (Fin 500),
      ''total_tokens'' \<mapsto> Num (Fin 1500)]
   = \<lparr>inputCost = double_of_rat (25 / 10000),
      outputCost = double_of_rat (5 / 1000),
      totalCost = double_of_rat (75 / 10000),
      promptTokens = Fin 1000, completionTokens = Fin 500, totalTokens = Fin 1500\<rparr>"
    by code_simp
  have "map_of fallbackPricing ''gpt-4o'' = Some \<lparr>input = Fin (5 / 2), output = Fin 10\<rparr>"
    by (simp add: fallbackPricing_def)
  then show "resolvePrices None ''gpt-4o'' =
       (Num (js_div (Fin (5 / 2)) (Fin 1000000)), Num (js_div (Fin 10) (Fin 1000000)))"
    by (simp add: resolvePrices_fallback usesFallback_no_catalog fallbackPerToken_own
        fallbackModelPricing_own del: js_div.simps)
  show "js_mul (Fin 1000) (js_div (Fin (5 / 2)) (Fin 1000000)) = double_of_rat (25 / 10000)"
    by code_simp
  show "js_mul (Fin 500) (js_div (Fin 10) (Fin 1000000)) = double_of_rat (5 / 1000)"
    by code_simp
  show "js_add (double_of_rat (25 / 10000)) (double_of_rat (5 / 1000)) = double_of_rat (75 / 10000)"
    by code_simp
qed

subsection \<open>The default entry\<close>

lemma unknown_model_no_key: "firstKeyIncluded ''unknown-model-xyz'' = None"
  by (simp add: firstKeyIncluded_def fallbackPricing_def keys_lower toLowerCase_def lower_unit_def)

lemma default_resolution:
  assumes "usesFallback mp m" and "m \<notin> fst ` set fallbackPricing"
    and "firstKeyIncluded m = None" and "m \<notin> set Object_prototype_names"
  shows "fallbackModelPricing m = Own \<lparr>input = Fin 5, output = Fin 15\<rparr>"
    and "resolvePrices mp m = (Num (js_div (Fin 5) (Fin 1000000)), Num (js_div (Fin 15) (Fin 1000000)))"
proof -
  from assms(3) have "scanEntries (toLowerCase m) fallbackPricing = None"
    by (simp add: scanEntries_find firstKeyIncluded_def)
  with assms(2,4) show own: "fallbackModelPricing m = Own \<lparr>input = Fin 5, output = Fin 15\<rparr>"
    by (simp add: fallbackModelPricing_scan)
  with assms(1) show "resolvePrices mp m = (Num (js_div (Fin 5) (Fin 1000000)), Num (js_div (Fin 15) (Fin 1000000)))"
    by (simp add: resolvePrices_fallback fallbackPerToken_own del: js_div.simps)
qed

text \<open>
  Claim C5, amended.  When the fallback table is consulted, a model id that is not a key of
  the table, includes no key of the table in its lowercase, and is not the name of a member
  of \<open>Object.prototype\<close> resolves to the \<open>default\<close> entry, 5.00 and 15.00 per million
  tokens.  With no catalog, \<open>calculateCost('unknown-model-xyz', {prompt_tokens: 1000,
  completion_tokens: 500, total_tokens: 1500})\<close> returns \<open>inputCost = 0.005\<close>,
  \<open>outputCost = 0.007500000000000001\<close> and \<open>totalCost = 0.0125\<close>: the product
  \<open>500 * (15 / 1000000)\<close> in binary64 is one unit in the last place above \<open>0.0075\<close>.
  As stated the claim fails in the output cost of its scenario, and for an id such as
  \<open>constructor\<close>, where the table lookup finds the inherited member and the costs are
  \<open>NaN\<close>.
\<close>

theorem default_entry_resolution:
  "(usesFallback modelPrices modelId \<and> modelId \<notin> fst ` set fallbackPricing
      \<and> firstKeyIncluded modelId = None \<and> modelId \<notin> set Object_prototype_names
    \<longrightarrow> fallbackModelPricing modelId = Own \<lparr>input = Fin 5, output = Fin 15\<rparr>
        \<and> resolvePrices modelPrices modelId =
            (Num (js_div (Fin 5) (Fin 1000000)), Num (js_div (Fin 15) (Fin 1000000))))
   \<and> calculateCost None ''unknown-model-xyz''
     [''prompt_tokens'' \<mapsto> Num (Fin 1000), ''completion_tokens'' \<mapsto> Num (Fin 500),
      ''total_tokens'' \<mapsto> Num (Fin 1500)]
   = \<lparr>inputCost = double_of_rat (5 / 1000),
      outputCost = double_of_rat (7500000000000001 / 1000000000000000000),
      totalCost = double_of_rat (125 / 10000),
      promptTokens = Fin 1000, completionTokens = Fin 500, totalTokens = Fin 1500\<rparr>"
proof (intro conjI impI)
  assume h: "usesFallback modelPrices modelId \<and> modelId \<notin> fst ` set fallbackPricing
      \<and> firstKeyIncluded modelId = None \<and> modelId \<notin> set Object_prototype_names"
  then show "fallbackModelPricing modelId = Own \<lparr>input = Fin 5, output = Fin 15\<rparr>"
    using default_resolution(1) [of modelPrices modelId] by blast
  from h show "resolvePrices modelPrices modelId =
            (Num (js_div (Fin 5) (Fin 1000000)), Num (js_div (Fin 15) (Fin 1000000)))"
    using default_resolution(2) [of modelPrices modelId] by blast
next
  show "calculateCost None ''unknown-model-xyz''
     [''prompt_tokens'' \<mapsto> Num (Fin 1000), ''completion_tokens'' \<mapsto> Num (Fin 500),
      ''total_tokens'' \<mapsto> Num (Fin 1500)]
   = \<lparr>inputCost = double_of_rat (5 / 1000),
      outputCost = double_of_rat (7500000000000001 / 1000000000000000000),
      totalCost = double_of_rat (125 / 10000),
      promptTokens = Fin 1000, completionTokens = Fin 500, totalTokens = Fin 1500\<rparr>"
    by code_simp
qed

theorem default_entry_resolution_witness:
  "firstKeyIncluded ''unknown-model-xyz'' = None
   \<and> fallbackModelPricing ''unknown-model-xyz'' = Own \<lparr>input = Fin 5, output = Fin 15\<rparr>
   \<and> resolvePrices None ''unknown-model-xyz'' =
       (Num (js_div (Fin 5) (Fin 1000000)), Num (js_div (Fin 15) (Fin 1000000)))"
proof -
  have k: "''unknown-model-xyz'' \<notin> fst ` set fallbackPricing"
    by (simp add: fallbackPricing_def)
  have np: "''unknown-model-xyz'' \<notin> set Object_prototype_names"
    by (simp add: Object_prototype_names_def)
  show ?thesis
    using default_entry_resolution [of None "''unknown-model-xyz''"]
      usesFallback_no_catalog [of "''unknown-model-xyz''"] k np unknown_model_no_key
    by simp
qed

theorem default_scenario_differs:
  "outputCost (calculateCost None ''unknown-model-xyz''
     [''prompt_tokens'' \<mapsto> Num (Fin 1000), ''completion_tokens'' \<mapsto> Num (Fin 500),
      ''total_tokens'' \<mapsto> Num (Fin 1500)])
     = Fin (8646911284551353 / 1152921504606846976)
   \<and> double_of_rat (75 / 10000) = Fin (8646911284551352 / 1152921504606846976)
   \<and> outputCost (calculateCost None ''unknown-model-xyz''
     [''prompt_tokens'' \<mapsto> Num (Fin 1000), ''completion_tokens'' \<mapsto> Num (Fin 500),
      ''total_tokens'' \<mapsto> Num (Fin 1500)])
     \<noteq> double_of_rat (75 / 10000)
   \<and> firstKeyIncluded ''constructor'' = None
   \<and> inputCost (calculateCost None ''constructor''
     [''prompt_tokens'' \<mapsto> Num (Fin 1000), ''completion_tokens'' \<mapsto> Num (Fin 500),
      ''total_tokens'' \<mapsto> Num (Fin 1500)]) = NaN"
  by code_simp

subsection \<open>Catalog prices\<close>

lemma catalog_entry_used:
  assumes "prices m = Some entry"
    and "entry ''input_cost_per_token'' = Some (Num i)"
    and "entry ''output_cost_per_token'' = Some (Num p)"
  shows "resolvePrices (Some prices) m = (Num i, Num p)"
  using assms by (simp add: resolvePrices_def catalogPrices_def js_index_def get_def)

lemma catalog_null_falls_back:
  assumes "prices m = Some entry"
    and "entry ''input_cost_per_token'' = Some Null \<or> entry ''output_cost_per_token'' = Some Null"
  shows "resolvePrices (Some prices) m = fallbackPerToken m"
  using assms by (auto simp: resolvePrices_def catalogPrices_def js_index_def get_def)

lemma catalog_missing_no_fallback:
  assumes "prices m = Some entry"
    and "entry ''input_cost_per_token'' = None"
    and "entry ''output_cost_per_token'' \<noteq> Some Null"
  shows "resolvePrices (Some prices) m = (Undefined, get entry ''output_cost_per_token'')"
  using assms
  by (auto simp: resolvePrices_def catalogPrices_def js_index_def get_def split: option.splits)

text \<open>
  Claim C1.  The catalog prices of an exact entry are used when both fields are Numbers
  (lemma \<open>catalog_entry_used\<close>), and the fallback table is used when one of them is
  \<open>null\<close> (lemma \<open>catalog_null_falls_back\<close>).  A field that is missing reads as
  \<open>undefined\<close>, which the test \<open>=== null\<close> of line 201 lets through
  (lemma \<open>catalog_missing_no_fallback\<close>): for the catalog
  \<open>{"gpt-4o": {"output_cost_per_token": 0.00001}}\<close> the partial entry is used, the input
  cost and the total cost are \<open>NaN\<close>, and the fallback price of \<open>gpt-4o\<close>, which gives the
  input cost \<open>0.0025\<close> without a catalog, is not consulted.
\<close>

theorem partial_catalog_entry_is_used:
  "calculateCost (Some [''gpt-4o'' \<mapsto> [''output_cost_per_token'' \<mapsto> Num (double_of_rat (1 / 100000))]]) ''gpt-4o''
     [''prompt_tokens'' \<mapsto> Num (Fin 1000), ''completion_tokens'' \<mapsto> Num (Fin 500),
      ''total_tokens'' \<mapsto> Num (Fin 1500)]
   = \<lparr>inputCost = NaN,
      outputCost = double_of_rat (5 / 1000),
      totalCost = NaN,
      promptTokens = Fin 1000, completionTokens = Fin 500, totalTokens = Fin 1500\<rparr>
   \<and> resolvePrices (Some [''gpt-4o'' \<mapsto> [''output_cost_per_token'' \<mapsto> Num (double_of_rat (1 / 100000))]]) ''gpt-4o'' = (Undefined, Num (double_of_rat (1 / 100000)))
   \<and> inputCost (calculateCost None ''gpt-4o''
     [''prompt_tokens'' \<mapsto> Num (Fin 1000), ''completion_tokens'' \<mapsto> Num (Fin 500),
      ''total_tokens'' \<mapsto> Num (Fin 1500)]) = double_of_rat (25 / 10000)"
  by code_simp

subsection \<open>Missing token counts\<close>

text \<open>
  Claim C10, amended.  A \<open>prompt_tokens\<close> or \<open>completion_tokens\<close> field that is absent,
  \<open>null\<close>, \<open>0\<close> or \<open>NaN\<close> counts as \<open>0\<close>: the token field of the breakdown is \<open>0\<close>, and
  the cost field is \<open>0\<close> whenever the resolved price is a finite Number, which it is with no
  catalog for every id that is not the name of a member of \<open>Object.prototype\<close>.  The call
  returns: the table lookup never leaves \<open>modelPricing\<close> undefined, so no field is read
  from \<open>undefined\<close>.  As stated the claim fails when the price is not finite, since
  \<open>0 * Infinity\<close> is \<open>NaN\<close>: a catalog price written \<open>1e999\<close> is read as \<open>Infinity\<close>.
\<close>

theorem missing_counts_are_zero:
  "(\<not> truthy (get usageRecord ''prompt_tokens'') \<longrightarrow>
      promptTokens (calculateCost modelPrices modelId usageRecord) = Fin 0
      \<and> (\<forall>q. fst (resolvePrices modelPrices modelId) = Num (Fin q) \<longrightarrow>
             inputCost (calculateCost modelPrices modelId usageRecord) = Fin 0))
   \<and> (\<not> truthy (get usageRecord ''completion_tokens'') \<longrightarrow>
      completionTokens (calculateCost modelPrices modelId usageRecord) = Fin 0
      \<and> (\<forall>q. snd (resolvePrices modelPrices modelId) = Num (Fin q) \<longrightarrow>
             outputCost (calculateCost modelPrices modelId usageRecord) = Fin 0))
   \<and> (modelId \<notin> set Object_prototype_names \<longrightarrow>
        (\<exists>a b. resolvePrices None modelId = (Num (Fin a), Num (Fin b))))
   \<and> fallbackModelPricing modelId \<noteq> Absent"
proof (intro conjI impI allI)
  show "fallbackModelPricing modelId \<noteq> Absent" by (rule fallbackModelPricing_not_Absent)
next
  assume "modelId \<notin> set Object_prototype_names"
  then show "\<exists>a b. resolvePrices None modelId = (Num (Fin a), Num (Fin b))"
    using fallback_prices_finite [of modelId]
    by (simp add: resolvePrices_fallback usesFallback_no_catalog)
qed (simp_all add: promptTokens_eq completionTokens_eq inputCost_eq outputCost_eq js_or_def double_of_rat_zero)

theorem missing_counts_are_zero_witness:
  "promptTokens (calculateCost None ''gpt-4o'' [''completion_tokens'' \<mapsto> Num (Fin 500)]) = Fin 0
   \<and> inputCost (calculateCost None ''gpt-4o'' [''completion_tokens'' \<mapsto> Num (Fin 500)]) = Fin 0
   \<and> completionTokens (calculateCost None ''gpt-4o'' [''prompt_tokens'' \<mapsto> Num (Fin 1000),
         ''completion_tokens'' \<mapsto> Null]) = Fin 0
   \<and> outputCost (calculateCost None ''gpt-4o'' [''prompt_tokens'' \<mapsto> Num (Fin 1000),
         ''completion_tokens'' \<mapsto> Null]) = Fin 0"
proof -
  have np: "''gpt-4o'' \<notin> set Object_prototype_names"
    by (simp add: Object_prototype_names_def)
  have r: "resolvePrices None ''gpt-4o'' =
       (Num (Fin (5902958103587057 / 2361183241434822606848)),
        Num (Fin (5902958103587057 / 590295810358705651712)))"
    using per_token_gpt4o_input per_token_gpt4o_output
    by (simp add: resolvePrices_fallback usesFallback_no_catalog fallbackPerToken_own
        fallbackModelPricing_own fallbackPricing_def del: js_div.simps)
  show ?thesis
    using missing_counts_are_zero [of "[''completion_tokens'' \<mapsto> Num (Fin 500)]" None "''gpt-4o''"]
      missing_counts_are_zero [of "[''prompt_tokens'' \<mapsto> Num (Fin 1000),
         ''completion_tokens'' \<mapsto> Null]" None "''gpt-4o''"] np r
    by (simp add: get_def)
qed

theorem zero_tokens_infinite_price:
  "promptTokens (calculateCost (Some [''gpt-4o'' \<mapsto> [''input_cost_per_token'' \<mapsto> Num PInf,
        ''output_cost_per_token'' \<mapsto> Num (double_of_rat (1 / 100000))]]) ''gpt-4o'' [''completion_tokens'' \<mapsto> Num (Fin 500)]) = Fin 0
   \<and> inputCost (calculateCost (Some [''gpt-4o'' \<mapsto> [''input_cost_per_token'' \<mapsto> Num PInf,
        ''output_cost_per_token'' \<mapsto> Num (double_of_rat (1 / 100000))]]) ''gpt-4o'' [''completion_tokens'' \<mapsto> Num (Fin 500)]) = NaN"
  by code_simp

subsection \<open>The total cost\<close>

lemma double_of_rat_not_NaN: "double_of_rat q \<noteq> NaN"
  by (simp add: double_of_rat_def Let_def)

lemma double_of_rat_nonneg_not_NInf: "0 \<le> q \<Longrightarrow> double_of_rat q \<noteq> NInf"
  by (simp add: double_of_rat_def Let_def)

lemma js_or_count:
  assumes "nonNegativeCount v"
  shows "\<exists>p. 0 \<le> p \<and> js_or v (Fin 0) = Fin p"
proof (cases v)
  case (Num d)
  with assms obtain p where "d = Fin p" "0 \<le> p" by (cases d) simp_all
  with Num show ?thesis by (auto simp: js_or_def)
qed (auto simp: js_or_def)

lemma js_add_not_NaN:
  assumes "x \<noteq> NaN" "x \<noteq> NInf" "y \<noteq> NaN" "y \<noteq> NInf"
  shows "js_add x y \<noteq> NaN"
  using assms by (cases x; cases y) (simp_all add: double_of_rat_not_NaN)

lemma cost_not_NaN_NInf:
  assumes "nonNegativeCount v" and "nonNegativePrice price"
  shows "js_mul (js_or v (Fin 0)) (ToNumber price) \<noteq> NaN
       \<and> js_mul (js_or v (Fin 0)) (ToNumber price) \<noteq> NInf"
proof -
  obtain p where p: "0 \<le> p" "js_or v (Fin 0) = Fin p"
    using js_or_count [OF assms(1)] by blast
  obtain q where q: "0 \<le> q" "price = Num (Fin q)"
    using assms(2) by (cases price rule: nonNegativePrice.cases) simp_all
  have "0 \<le> p * q" using p(1) q(1) by simp
  then show ?thesis
    using p(2) q(2) by (simp add: double_of_rat_not_NaN double_of_rat_nonneg_not_NInf)
qed

lemma table_per_token_nonneg:
  assumes "p \<in> snd ` set fallbackPricing"
  shows "nonNegativePrice (Num (js_div (input p) (Fin 1000000)))
       \<and> nonNegativePrice (Num (js_div (output p) (Fin 1000000)))"
proof -
  from assms have "p = \<lparr>input = Fin (5 / 2), output = Fin 10\<rparr>
      \<or> p = \<lparr>input = double_of_rat (15 / 100), output = double_of_rat (60 / 100)\<rparr>
      \<or> p = \<lparr>input = Fin 10, output = Fin 30\<rparr>
      \<or> p = \<lparr>input = Fin 30, output = Fin 60\<rparr>
      \<or> p = \<lparr>input = Fin 5, output = Fin 15\<rparr>"
    unfolding fallbackPricing_def
    by (simp only: list.set image_insert image_empty snd_conv insert_iff empty_iff) blast
  then show ?thesis
    by (elim disjE) (simp only: pricing.select_convs per_token_values, simp)+
qed

lemma fallback_prices_nonneg:
  assumes "m \<notin> set Object_prototype_names"
  shows "nonNegativePrice (fst (fallbackPerToken m)) \<and> nonNegativePrice (snd (fallbackPerToken m))"
proof (cases "fallbackModelPricing m")
  case (Own p)
  then have "p \<in> snd ` set fallbackPricing" by (rule fallbackModelPricing_member)
  then show ?thesis
    using table_per_token_nonneg [of p] Own by (simp add: fallbackPerToken_own del: js_div.simps)
next
  case Inherited
  obtain a b where "fallbackPerToken m = (Num (Fin a), Num (Fin b))"
    using fallback_prices_finite [OF assms] by blast
  with Inherited show ?thesis by (simp add: fallbackPerToken_def)
next
  case Absent
  then show ?thesis by (simp add: fallbackModelPricing_not_Absent)
qed

lemma total_js_eq:
  assumes "nonNegativeCount (get u ''prompt_tokens'')"
    and "nonNegativeCount (get u ''completion_tokens'')"
    and "nonNegativePrice (fst (resolvePrices mp m))"
    and "nonNegativePrice (snd (resolvePrices mp m))"
  shows "js_eq (totalCost (calculateCost mp m u))
           (js_add (inputCost (calculateCost mp m u)) (outputCost (calculateCost mp m u)))"
proof -
  have "js_add (inputCost (calculateCost mp m u)) (outputCost (calculateCost mp m u)) \<noteq> NaN"
    unfolding inputCost_eq outputCost_eq
    using cost_not_NaN_NInf [OF assms(1,3)] cost_not_NaN_NInf [OF assms(2,4)]
    by (intro js_add_not_NaN) simp_all
  then show ?thesis
    by (simp add: js_eq_def totalCost_eq)
qed

text \<open>
  Claim C6, amended.  In every breakdown \<open>totalCost\<close> is the one binary64 addition
  \<open>inputCost + outputCost\<close> of the two costs of the same breakdown, with nothing rounded in
  between, and the two costs are the products of the defaulted token counts and the
  resolved prices.  The comparison \<open>totalCost === inputCost + outputCost\<close> is true exactly
  when that sum is not \<open>NaN\<close>.  It is true whenever the two token counts are absent,
  \<open>null\<close> or finite and not negative and the two resolved prices are finite and not
  negative, hence with no catalog for every such usage record and every id that is not the
  name of a member of \<open>Object.prototype\<close>.  As stated the claim fails when a cost is
  \<open>NaN\<close>, since \<open>NaN === NaN\<close> is false: with a catalog input price written \<open>1e999\<close>,
  read as \<open>Infinity\<close>, and \<open>prompt_tokens\<close> 0 the input cost \<open>0 * Infinity\<close> is \<open>NaN\<close>.
\<close>

theorem total_equals_sum_unless_NaN:
  "totalCost (calculateCost modelPrices modelId usageRecord) =
     js_add (inputCost (calculateCost modelPrices modelId usageRecord))
            (outputCost (calculateCost modelPrices modelId usageRecord))
   \<and> inputCost (calculateCost modelPrices modelId usageRecord) =
       js_mul (js_or (get usageRecord ''prompt_tokens'') (Fin 0))
              (ToNumber (fst (resolvePrices modelPrices modelId)))
   \<and> outputCost (calculateCost modelPrices modelId usageRecord) =
       js_mul (js_or (get usageRecord ''completion_tokens'') (Fin 0))
              (ToNumber (snd (resolvePrices modelPrices modelId)))
   \<and> (js_eq (totalCost (calculateCost modelPrices modelId usageRecord))
          (js_add (inputCost (calculateCost modelPrices modelId usageRecord))
                  (outputCost (calculateCost modelPrices modelId usageRecord)))
        \<longleftrightarrow> totalCost (calculateCost modelPrices modelId usageRecord) \<noteq> NaN)
   \<and> (nonNegativeCount (get usageRecord ''prompt_tokens'')
        \<and> nonNegativeCount (get usageRecord ''completion_tokens'')
        \<and> nonNegativePrice (fst (resolvePrices modelPrices modelId))
        \<and> nonNegativePrice (snd (resolvePrices modelPrices modelId))
      \<longrightarrow> js_eq (totalCost (calculateCost modelPrices modelId usageRecord))
            (js_add (inputCost (calculateCost modelPrices modelId usageRecord))
                    (outputCost (calculateCost modelPrices modelId usageRecord))))
   \<and> (nonNegativeCount (get usageRecord ''prompt_tokens'')
        \<and> nonNegativeCount (get usageRecord ''completion_tokens'')
        \<and> modelId \<notin> set Object_prototype_names
      \<longrightarrow> js_eq (totalCost (calculateCost None modelId usageRecord))
            (js_add (inputCost (calculateCost None modelId usageRecord))
                    (outputCost (calculateCost None modelId usageRecord))))"
proof (intro conjI impI)
  show "totalCost (calculateCost modelPrices modelId usageRecord) =
     js_add (inputCost (calculateCost modelPrices modelId usageRecord))
            (outputCost (calculateCost modelPrices modelId usageRecord))"
    by (rule totalCost_eq)
  show "inputCost (calculateCost modelPrices modelId usageRecord) =
       js_mul (js_or (get usageRecord ''prompt_tokens'') (Fin 0))
              (ToNumber (fst (resolvePrices modelPrices modelId)))"
    by (rule inputCost_eq)
  show "outputCost (calculateCost modelPrices modelId usageRecord) =
       js_mul (js_or (get usageRecord ''completion_tokens'') (Fin 0))
              (ToNumber (snd (resolvePrices modelPrices modelId)))"
    by (rule outputCost_eq)
  show "js_eq (totalCost (calculateCost modelPrices modelId usageRecord))
          (js_add (inputCost (calculateCost modelPrices modelId usageRecord))
                  (outputCost (calculateCost modelPrices modelId usageRecord)))
        \<longleftrightarrow> totalCost (calculateCost modelPrices modelId usageRecord) \<noteq> NaN"
    by (simp add: js_eq_def totalCost_eq)
next
  assume "nonNegativeCount (get usageRecord ''prompt_tokens'')
        \<and> nonNegativeCount (get usageRecord ''completion_tokens'')
        \<and> nonNegativePrice (fst (resolvePrices modelPrices modelId))
        \<and> nonNegativePrice (snd (resolvePrices modelPrices modelId))"
  then show "js_eq (totalCost (calculateCost modelPrices modelId usageRecord))
            (js_add (inputCost (calculateCost modelPrices modelId usageRecord))
                    (outputCost (calculateCost modelPrices modelId usageRecord)))"
    by (intro total_js_eq) simp_all
next
  assume h: "nonNegativeCount (get usageRecord ''prompt_tokens'')
        \<and> nonNegativeCount (get usageRecord ''completion_tokens'')
        \<and> modelId \<notin> set Object_prototype_names"
  then have "nonNegativePrice (fst (resolvePrices None modelId))
           \<and> nonNegativePrice (snd (resolvePrices None modelId))"
    using fallback_prices_nonneg [of modelId]
    by (simp add: resolvePrices_fallback usesFallback_no_catalog)
  with h show "js_eq (totalCost (calculateCost None modelId usageRecord))
            (js_add (inputCost (calculateCost None modelId usageRecord))
                    (outputCost (calculateCost None modelId usageRecord)))"
    by (intro total_js_eq) simp_all
qed

theorem total_equals_sum_unless_NaN_witness:
  "js_eq (totalCost (calculateCost None ''gpt-4o''
     [''prompt_tokens'' \<mapsto> Num (Fin 1000), ''completion_tokens'' \<mapsto> Num (Fin 500),
      ''total_tokens'' \<mapsto> Num (Fin 1500)]))
     (js_add (inputCost (calculateCost None ''gpt-4o''
     [''prompt_tokens'' \<mapsto> Num (Fin 1000), ''completion_tokens'' \<mapsto> Num (Fin 500),
      ''total_tokens'' \<mapsto> Num (Fin 1500)]))
       (outputCost (calculateCost None ''gpt-4o''
     [''prompt_tokens'' \<mapsto> Num (Fin 1000), ''completion_tokens'' \<mapsto> Num (Fin 500),
      ''total_tokens'' \<mapsto> Num (Fin 1500)])))
   \<and> totalCost (calculateCost None ''gpt-4o''
     [''prompt_tokens'' \<mapsto> Num (Fin 1000), ''completion_tokens'' \<mapsto> Num (Fin 500),
      ''total_tokens'' \<mapsto> Num (Fin 1500)]) \<noteq> NaN"
proof -
  have np: "''gpt-4o'' \<notin> set Object_prototype_names"
    by (simp add: Object_prototype_names_def)
  have r: "resolvePrices None ''gpt-4o'' =
       (Num (Fin (5902958103587057 / 2361183241434822606848)),
        Num (Fin (5902958103587057 / 590295810358705651712)))"
    using per_token_gpt4o_input per_token_gpt4o_output
    by (simp add: resolvePrices_fallback usesFallback_no_catalog fallbackPerToken_own
        fallbackModelPricing_own fallbackPricing_def del: js_div.simps)
  have h: "nonNegativeCount (get [''prompt_tokens'' \<mapsto> Num (Fin 1000), ''completion_tokens'' \<mapsto> Num (Fin 500),
      ''total_tokens'' \<mapsto> Num (Fin 1500)] ''prompt_tokens'')
        \<and> nonNegativeCount (get [''prompt_tokens'' \<mapsto> Num (Fin 1000), ''completion_tokens'' \<mapsto> Num (Fin 500),
      ''total_tokens'' \<mapsto> Num (Fin 1500)] ''completion_tokens'')
        \<and> nonNegativePrice (fst (resolvePrices None ''gpt-4o''))
        \<and> nonNegativePrice (snd (resolvePrices None ''gpt-4o''))"
    using r by (simp add: get_def)
  note t = total_equals_sum_unless_NaN [of None "''gpt-4o''" "[''prompt_tokens'' \<mapsto> Num (Fin 1000), ''completion_tokens'' \<mapsto> Num (Fin 500),
      ''total_tokens'' \<mapsto> Num (Fin 1500)]"]
  from t h np have e: "js_eq (totalCost (calculateCost None ''gpt-4o''
     [''prompt_tokens'' \<mapsto> Num (Fin 1000), ''completion_tokens'' \<mapsto> Num (Fin 500),
      ''total_tokens'' \<mapsto> Num (Fin 1500)]))
     (js_add (inputCost (calculateCost None ''gpt-4o''
     [''prompt_tokens'' \<mapsto> Num (Fin 1000), ''completion_tokens'' \<mapsto> Num (Fin 500),
      ''total_tokens'' \<mapsto> Num (Fin 1500)]))
       (outputCost (calculateCost None ''gpt-4o''
     [''prompt_tokens'' \<mapsto> Num (Fin 1000), ''completion_tokens'' \<mapsto> Num (Fin 500),
      ''total_tokens'' \<mapsto> Num (Fin 1500)])))"
    by blast
  with t have "totalCost (calculateCost None ''gpt-4o''
     [''prompt_tokens'' \<mapsto> Num (Fin 1000), ''completion_tokens'' \<mapsto> Num (Fin 500),
      ''total_tokens'' \<mapsto> Num (Fin 1500)]) \<noteq> NaN"
    by blast
  with e show ?thesis by blast
qed

theorem total_not_equal_when_NaN:
  "\<not> js_eq (totalCost (calculateCost (Some [''gpt-4o'' \<mapsto> [''input_cost_per_token'' \<mapsto> Num PInf,
        ''output_cost_per_token'' \<mapsto> Num (double_of_rat (1 / 100000))]]) ''gpt-4o''
        [''prompt_tokens'' \<mapsto> Num (Fin 0), ''completion_tokens'' \<mapsto> Num (Fin 500),
      ''total_tokens'' \<mapsto> Num (Fin 500)]))
      (js_add (inputCost (calculateCost (Some [''gpt-4o'' \<mapsto> [''input_cost_per_token'' \<mapsto> Num PInf,
        ''output_cost_per_token'' \<mapsto> Num (double_of_rat (1 / 100000))]]) ''gpt-4o''
        [''prompt_tokens'' \<mapsto> Num (Fin 0), ''completion_tokens'' \<mapsto> Num (Fin 500),
      ''total_tokens'' \<mapsto> Num (Fin 500)]))
        (outputCost (calculateCost (Some [''gpt-4o'' \<mapsto> [''input_cost_per_token'' \<mapsto> Num PInf,
        ''output_cost_per_token'' \<mapsto> Num (double_of_rat (1 / 100000))]]) ''gpt-4o''
        [''prompt_tokens'' \<mapsto> Num (Fin 0), ''completion_tokens'' \<mapsto> Num (Fin 500),
      ''total_tokens'' \<mapsto> Num (Fin 500)])))
   \<and> inputCost (calculateCost (Some [''gpt-4o'' \<mapsto> [''input_cost_per_token'' \<mapsto> Num PInf,
        ''output_cost_per_token'' \<mapsto> Num (double_of_rat (1 / 100000))]]) ''gpt-4o''
        [''prompt_tokens'' \<mapsto> Num (Fin 0), ''completion_tokens'' \<mapsto> Num (Fin 500),
      ''total_tokens'' \<mapsto> Num (Fin 500)]) = NaN
   \<and> \<not> js_eq (totalCost (calculateCost None ''constructor''
        [''prompt_tokens'' \<mapsto> Num (Fin 1000), ''completion_tokens'' \<mapsto> Num (Fin 500),
      ''total_tokens'' \<mapsto> Num (Fin 1500)]))
      (js_add (inputCost (calculateCost None ''constructor''
        [''prompt_tokens'' \<mapsto> Num (Fin 1000), ''completion_tokens'' \<mapsto> Num (Fin 500),
      ''total_tokens'' \<mapsto> Num (Fin 1500)]))
        (outputCost (calculateCost None ''constructor''
        [''prompt_tokens'' \<mapsto> Num (Fin 1000), ''completion_tokens'' \<mapsto> Num (Fin 500),
      ''total_tokens'' \<mapsto> Num (Fin 1500)])))"
  by code_simp

end
